theory Spec2Isabelle
  imports Main
begin

section \<open>Go library functions used by the handlers\<close>

text \<open>
  Go strings are byte sequences; they are modelled as \<open>string\<close> (a list of 8-bit
  characters). Go's \<open>int\<close> is taken to be 64 bits wide (amd64, arm64): arithmetic on it
  wraps around in two's complement, written out by \<open>wrap64\<close>.
\<close>

definition wrap64 :: "int \<Rightarrow> int" where
  "wrap64 x = (x + 2 ^ 63) mod 2 ^ 64 - 2 ^ 63"

definition HasSuffix :: "string \<Rightarrow> string \<Rightarrow> bool" where
  \<comment> \<open>strings.HasSuffix\<close>
  "HasSuffix s suffix =
     (length s \<ge> length suffix \<and> drop (length s - length suffix) s = suffix)"

definition TrimSuffix :: "string \<Rightarrow> string \<Rightarrow> string" where
  \<comment> \<open>strings.TrimSuffix\<close>
  "TrimSuffix s suffix =
     (if HasSuffix s suffix then take (length s - length suffix) s else s)"

definition byte :: "char \<Rightarrow> nat" where
  "byte ch = of_char ch"

definition isDigit :: "char \<Rightarrow> bool" where
  "isDigit ch = (byte CHR ''0'' \<le> byte ch \<and> byte ch \<le> byte CHR ''9'')"

fun digitsValue :: "int \<Rightarrow> string \<Rightarrow> int" where
  \<comment> \<open>the loop \<open>n = n*10 + int(ch - '0')\<close>, on unbounded integers\<close>
  "digitsValue n [] = n"
| "digitsValue n (ch # s) = digitsValue (n * 10 + (int (byte ch) - int (byte CHR ''0''))) s"

definition Atoi :: "string \<Rightarrow> int option" where
  \<comment> \<open>strconv.Atoi for a 64-bit \<open>int\<close>: an optional sign, then one or more decimal
      digits; \<open>None\<close> is a syntax error or a value out of range\<close>
  "Atoi s =
     (case s of
        [] \<Rightarrow> None
      | c # cs \<Rightarrow>
          let neg = (c = CHR ''-'');
              ds = (if c = CHR ''-'' \<or> c = CHR ''+'' then cs else s)
          in if ds = [] \<or> \<not> list_all isDigit ds then None
             else let n = digitsValue 0 ds;
                      v = (if neg then - n else n)
                  in if - (2 ^ 63) \<le> v \<and> v \<le> 2 ^ 63 - 1 then Some v else None)"

datatype panic = SliceBoundsOutOfRange

definition slice :: "'a list \<Rightarrow> int \<Rightarrow> int \<Rightarrow> panic + 'a list" where
  \<comment> \<open>the slice expression \<open>xs[lo:hi]\<close> of a slice whose capacity is its length\<close>
  "slice xs lo hi =
     (if 0 \<le> lo \<and> lo \<le> hi \<and> hi \<le> int (length xs)
      then Inr (take (nat (hi - lo)) (drop (nat lo) xs))
      else Inl SliceBoundsOutOfRange)"

definition between :: "char \<Rightarrow> char \<Rightarrow> char \<Rightarrow> bool" where
  "between lo hi c = (byte lo \<le> byte c \<and> byte c \<le> byte hi)"

definition ishex :: "char \<Rightarrow> bool" where
  "ishex c = (between CHR ''0'' CHR ''9'' c \<or> between CHR ''a'' CHR ''f'' c
              \<or> between CHR ''A'' CHR ''F'' c)"

definition unhex :: "char \<Rightarrow> nat" where
  "unhex c =
     (if between CHR ''0'' CHR ''9'' c then byte c - byte CHR ''0''
      else if between CHR ''a'' CHR ''f'' c then byte c - byte CHR ''a'' + 10
      else if between CHR ''A'' CHR ''F'' c then byte c - byte CHR ''A'' + 10
      else 0)"

fun unescape :: "string \<Rightarrow> string option" where
  "unescape [] = Some []"
| "unescape (c # s) =
     (if c = CHR ''%'' then
        (case s of
           a # b # rest \<Rightarrow>
             if ishex a \<and> ishex b
             then map_option ((#) (char_of (unhex a * 16 + unhex b))) (unescape rest)
             else None
         | _ \<Rightarrow> None)
      else map_option ((#) c) (unescape s))"

definition PathUnescape :: "string \<Rightarrow> string" where
  \<comment> \<open>\<open>ref, _ = url.PathUnescape(ref)\<close>: the error is dropped, and with it the result
      is the empty string\<close>
  "PathUnescape s = (case unescape s of Some t \<Rightarrow> t | None \<Rightarrow> [])"

fun splitSlash :: "string \<Rightarrow> string list" where
  \<comment> \<open>\<open>strings.Split(s, "/")\<close>\<close>
  "splitSlash [] = [[]]"
| "splitSlash (c # s) =
     (if c = CHR ''/'' then [] # splitSlash s
      else (case splitSlash s of [] \<Rightarrow> [[c]] | x # xs \<Rightarrow> (c # x) # xs))"

fun joinSlash :: "string list \<Rightarrow> string" where
  \<comment> \<open>\<open>strings.Join(elems, "/")\<close>\<close>
  "joinSlash [] = []"
| "joinSlash [x] = x"
| "joinSlash (x # y # xs) = x @ ''/'' @ joinSlash (y # xs)"

fun cleanElems :: "bool \<Rightarrow> string list \<Rightarrow> string list \<Rightarrow> string list" where
  \<comment> \<open>the elements \<open>filepath.Clean\<close> keeps, \<open>out\<close> being those kept so far (last
      first): empty and \<open>.\<close> elements go, \<open>..\<close> removes the element before it, is
      dropped at the root of a rooted path and is kept otherwise\<close>
  "cleanElems rooted out [] = rev out"
| "cleanElems rooted out (e # es) =
     (if e = [] \<or> e = ''.'' then cleanElems rooted out es
      else if e = ''..'' then
        (case out of
           [] \<Rightarrow> if rooted then cleanElems rooted [] es else cleanElems rooted [e] es
         | t # ts \<Rightarrow> if t = ''..'' then cleanElems rooted (e # out) es
                     else cleanElems rooted ts es)
      else cleanElems rooted (e # out) es)"

definition Clean :: "string \<Rightarrow> string" where
  \<comment> \<open>\<open>filepath.Clean\<close> on a system whose separator is \<open>/\<close>\<close>
  "Clean path =
     (if path = [] then ''.''
      else let rooted = (hd path = CHR ''/'');
               out = joinSlash (cleanElems rooted [] (splitSlash path))
           in if rooted then CHR ''/'' # out
              else if out = [] then ''.'' else out)"

fun Join :: "string list \<Rightarrow> string" where
  \<comment> \<open>\<open>filepath.Join\<close>: from the first non-empty element on, joined and cleaned\<close>
  "Join [] = []"
| "Join (e # elem) = (if e \<noteq> [] then Clean (joinSlash (e # elem)) else Join elem)"

definition Dir :: "string \<Rightarrow> string" where
  \<comment> \<open>\<open>filepath.Dir\<close>: the path up to its last separator, cleaned\<close>
  "Dir path = Clean (rev (dropWhile (\<lambda>c. c \<noteq> CHR ''/'') (rev path)))"

definition hextable :: string where
  "hextable = ''0123456789abcdef''"

fun EncodeToString :: "string \<Rightarrow> string" where
  \<comment> \<open>\<open>hex.EncodeToString\<close>: \<open>hextable[v >> 4]\<close>, \<open>hextable[v & 0x0f]\<close> for every byte\<close>
  "EncodeToString [] = []"
| "EncodeToString (v # src) =
     hextable ! (byte v div 16) # hextable ! (byte v mod 16) # EncodeToString src"

section \<open>Errors, git objects and the response types\<close>

record Conflict =
  conflict_Filename :: string
  conflict_Reason :: string

text \<open>
  An error value is what \<open>errors.Is\<close> and \<open>errors.As\<close> find in it (its kind) and the text
  of \<open>err.Error()\<close>. \<open>ErrMerge\<close> carries the fields \<open>Conflicts\<close> and \<open>Message\<close> of
  \<open>git.ErrMerge\<close>.
\<close>

datatype err_kind =
    ErrReferenceNotFound
  | ErrBinaryFile
  | ErrFileNotFound
  | ErrRepositoryAlreadyExists
  | ErrMerge "Conflict list" string
  | ErrOther

datatype error = Err (kind: err_kind) (Error: string)

datatype Commit = Commit string string

record Reference =
  ref_Name :: string
  ref_Hash :: string

record Tag =
  tag_Name :: string
  tag_Hash :: string
  tag_Message :: string
  tag_TagObject :: "string option"

record NiceTree =
  file_Name :: string
  file_Mode :: string
  file_IsFile :: bool

record Branch =
  branch_Name :: string
  branch_Hash :: string

record TagReference =
  tr_Name :: string
  tr_Hash :: string
  tr_Tag :: "string option"
  tr_Message :: string

record RepoIndexResponse =
  IsEmpty :: bool
  index_Ref :: string
  index_Commits :: "Commit list"
  index_Description :: string
  index_Readme :: string
  index_ReadmeFileName :: string
  index_Files :: "NiceTree list"
  index_Branches :: "Branch list"
  index_Tags :: "TagReference list"
  TotalCommits :: int

record RepoLogResponse =
  log_Commits :: "Commit list"
  log_Ref :: string
  log_Description :: string
  Log_flag :: bool
  Total :: int
  Page :: int
  PerPage :: int

record RepoTreeResponse =
  tree_Ref :: string
  tree_Parent :: string
  tree_Description :: string
  tree_DotDot :: string
  tree_Files :: "NiceTree list"

record RepoBlobResponse =
  blob_Ref :: string
  Contents :: string
  blob_Path :: string
  IsBinary :: bool
  SizeHint :: nat

record ConflictInfo =
  Filename :: string
  Reason :: string

record MergeCheckResponse =
  IsConflicted :: bool
  Conflicts :: "ConflictInfo list"
  Message :: string

record MergeRequest =
  Patch :: string
  Branch :: string
  AuthorName :: string
  AuthorEmail :: string
  CommitBody :: string
  CommitMessage :: string

record MergeOptions =
  mo_AuthorName :: string
  mo_AuthorEmail :: string
  mo_CommitBody :: string
  mo_CommitMessage :: string

record MergeCheckData =
  check_Patch :: string
  check_Branch :: string

record NewRepoData =
  Did :: string
  Name :: string
  DefaultBranch :: string

record RemoveRepoData =
  remove_Did :: string
  remove_Name :: string

record TarEntry =
  tar_Name :: string
  tar_Mode :: nat
  tar_IsDir :: bool
  tar_Content :: string

text \<open>
  The response writers \<open>writeJSON\<close>, \<open>writeError\<close>, \<open>notFound\<close>, \<open>writeConflict\<close> and
  \<open>showFile\<close> are called by the handlers and defined elsewhere in the package: a response
  is the writer called with its arguments. \<open>WriteHeader\<close> is \<open>w.WriteHeader(status)\<close>
  with no body, \<open>Gzip\<close> what was written to the \<open>gzip.Writer\<close> around the response.
\<close>

datatype 'b response =
    WriteJSON 'b
  | WriteError string nat
  | NotFound
  | WriteConflict 'b
  | ShowFile 'b
  | WriteHeader nat
  | Gzip 'b

section \<open>The world outside the handlers\<close>

text \<open>
  The handlers reach the file system and the repositories through other packages:
  \<open>securejoin.SecureJoin\<close>, \<open>os.ReadFile\<close> and the package \<open>git\<close> (\<open>git.Open\<close> and the
  methods of the repository it returns). They are parameters of the model, of the types
  the handlers use them at; a Go result \<open>(v, err)\<close> whose value is only read when
  \<open>err == nil\<close> is a sum, one whose value is read in both cases is a pair.
\<close>

record 'r World =
  SecureJoin :: "string \<Rightarrow> string \<Rightarrow> string \<times> error option"
  ReadFile :: "string \<Rightarrow> error + string"
  Open :: "string \<Rightarrow> string \<Rightarrow> error + 'r"
  Commits :: "'r \<Rightarrow> Commit list \<times> error option"
  Branches :: "'r \<Rightarrow> error + Reference list"
  Tags :: "'r \<Rightarrow> Tag list \<times> error option"
  FileContent :: "'r \<Rightarrow> string \<Rightarrow> string \<times> error option"
  FileTree :: "'r \<Rightarrow> string \<Rightarrow> error + NiceTree list"
  FindMainBranch :: "'r \<Rightarrow> error + string"
  Diff :: "'r \<Rightarrow> error + string"
  WriteTar :: "'r \<Rightarrow> string \<Rightarrow> TarEntry list \<times> error option"
  MergeCheck_git :: "'r \<Rightarrow> string \<Rightarrow> string \<Rightarrow> error option"
  MergeWithOptions :: "'r \<Rightarrow> string \<Rightarrow> string \<Rightarrow> MergeOptions \<Rightarrow> error option"
  InitBare :: "string \<Rightarrow> string \<Rightarrow> error option"
  RemoveAll :: "string \<Rightarrow> error option"
  AddRepo :: "string \<Rightarrow> string \<Rightarrow> string \<Rightarrow> error option"

record Config =
  ScanPath :: string
  MainBranch :: string
  Readme :: "string list"

record 'b Request =
  URLParam :: "string \<Rightarrow> string"
  Query :: "string \<Rightarrow> string list"
  Body :: "error + 'b"

definition Get :: "(string \<Rightarrow> string list) \<Rightarrow> string \<Rightarrow> string" where
  \<comment> \<open>url.Values.Get: the first value of the key, the empty string when there is none\<close>
  "Get v key = (case v key of [] \<Rightarrow> [] | x # _ \<Rightarrow> x)"

section \<open>knotserver: the handlers\<close>

definition didPath :: "'r World \<Rightarrow> 'b Request \<Rightarrow> string" where
  \<comment> \<open>the error of \<open>SecureJoin\<close> is dropped; the result of \<open>filepath.Clean(path)\<close>
      is not used, \<open>path\<close> is returned as it is\<close>
  "didPath ext r =
     (let did = URLParam r ''did'';
          name = URLParam r ''name'';
          path = fst (SecureJoin ext did name)
      in path)"

definition getDescription :: "'r World \<Rightarrow> string \<Rightarrow> string" where
  "getDescription ext path =
     (case ReadFile ext (Join [path, ''description'']) of Inr db \<Rightarrow> db | Inl err \<Rightarrow> [])"

definition Log :: "'r World \<Rightarrow> Config \<Rightarrow> 'b Request \<Rightarrow> panic + RepoLogResponse response" where
  "Log ext c r =
     (let ref = URLParam r ''ref'';
          path = fst (SecureJoin ext (ScanPath c) (didPath ext r))
      in (case Open ext path ref of
           Inl err \<Rightarrow> Inr NotFound
         | Inr gr \<Rightarrow>
             (case Commits ext gr of
                (commits, Some err) \<Rightarrow> Inr (WriteError (Error err) 500)
              | (commits, None) \<Rightarrow>
                  let pageParam = Get (Query r) ''page'';
                      page = (if pageParam \<noteq> [] then
                                (case Atoi pageParam of
                                   Some p \<Rightarrow> if p > 0 then p else 1
                                 | None \<Rightarrow> 1)
                              else 1);
                      pageSizeParam = Get (Query r) ''per_page'';
                      pageSize = (if pageSizeParam \<noteq> [] then
                                    (case Atoi pageSizeParam of
                                       Some ps \<Rightarrow> if ps > 0 then ps else 30
                                     | None \<Rightarrow> 30)
                                  else 30);
                      start = wrap64 (wrap64 (page - 1) * pageSize);
                      end1 = wrap64 (start + pageSize);
                      total = int (length commits);
                      sliced = (if start \<ge> total then Inr []
                                else slice commits start (if end1 > total then total else end1))
                  in (case sliced of
                       Inl p \<Rightarrow> Inl p
                     | Inr commits' \<Rightarrow>
                         Inr (WriteJSON \<lparr> log_Commits = commits', log_Ref = ref,
                                log_Description = getDescription ext path, Log_flag = True,
                                Total = total, Page = page, PerPage = pageSize \<rparr>)))))"

definition emptyIndexResponse :: RepoIndexResponse where
  \<comment> \<open>the zero value of \<open>types.RepoIndexResponse\<close>\<close>
  "emptyIndexResponse =
     \<lparr> IsEmpty = False, index_Ref = [], index_Commits = [], index_Description = [],
       index_Readme = [], index_ReadmeFileName = [], index_Files = [], index_Branches = [],
       index_Tags = [], TotalCommits = 0 \<rparr>"

definition toBranch :: "Reference \<Rightarrow> Branch" where
  "toBranch branch = \<lparr> branch_Name = ref_Name branch, branch_Hash = ref_Hash branch \<rparr>"

definition toTagReference :: "Tag \<Rightarrow> TagReference" where
  "toTagReference tag =
     \<lparr> tr_Name = tag_Name tag, tr_Hash = tag_Hash tag, tr_Tag = tag_TagObject tag,
       tr_Message = (if tag_Message tag \<noteq> [] then tag_Message tag else []) \<rparr>"

fun findReadme :: "'r World \<Rightarrow> 'r \<Rightarrow> string \<times> string \<Rightarrow> string list \<Rightarrow> string \<times> string" where
  \<comment> \<open>the loop over \<open>h.c.Repo.Readme\<close>: the state is \<open>(readmeContent, readmeFile)\<close>\<close>
  "findReadme ext gr acc [] = acc"
| "findReadme ext gr acc (readme # rest) =
     (let content = fst (FileContent ext gr readme)
      in findReadme ext gr (if length content > 0 then (content, readme) else acc) rest)"

definition RepoIndex :: "'r World \<Rightarrow> Config \<Rightarrow> 'b Request \<Rightarrow> RepoIndexResponse response" where
  "RepoIndex ext c r =
     (let path = fst (SecureJoin ext (ScanPath c) (didPath ext r));
          ref = PathUnescape (URLParam r ''ref'')
      in (case Open ext path ref of
           Inl err \<Rightarrow>
             if kind err = ErrReferenceNotFound
             then WriteJSON (emptyIndexResponse \<lparr> IsEmpty := True \<rparr>)
             else NotFound
         | Inr gr \<Rightarrow>
             (case Commits ext gr of
                (commits, Some err) \<Rightarrow> WriteError (Error err) 500
              | (commits, None) \<Rightarrow>
                  let total = int (length commits);
                      commits10 = (if length commits > 10 then take 10 commits else commits)
                  in (case Branches ext gr of
                       Inl err \<Rightarrow> WriteError (Error err) 500
                     | Inr branches \<Rightarrow>
                         let bs = map toBranch branches;
                             rtags = map toTagReference (fst (Tags ext gr));
                             readme = findReadme ext gr ([], []) (Readme c)
                         in (case FileTree ext gr [] of
                              Inl err \<Rightarrow> WriteError (Error err) 500
                            | Inr files \<Rightarrow>
                                (case (if ref = [] then FindMainBranch ext gr else Inr ref) of
                                   Inl err \<Rightarrow> WriteError (Error err) 500
                                 | Inr ref' \<Rightarrow>
                                     WriteJSON \<lparr> IsEmpty = False, index_Ref = ref',
                                       index_Commits = commits10,
                                       index_Description = getDescription ext path,
                                       index_Readme = fst readme,
                                       index_ReadmeFileName = snd readme,
                                       index_Files = files, index_Branches = bs,
                                       index_Tags = rtags, TotalCommits = total \<rparr>))))))"

definition RepoTree :: "'r World \<Rightarrow> Config \<Rightarrow> 'b Request \<Rightarrow> RepoTreeResponse response" where
  "RepoTree ext c r =
     (let treePath = URLParam r ''*'';
          ref = PathUnescape (URLParam r ''ref'');
          path = fst (SecureJoin ext (ScanPath c) (didPath ext r))
      in (case Open ext path ref of
           Inl err \<Rightarrow> NotFound
         | Inr gr \<Rightarrow>
             (case FileTree ext gr treePath of
                Inl err \<Rightarrow> WriteError (Error err) 500
              | Inr files \<Rightarrow>
                  WriteJSON \<lparr> tree_Ref = ref, tree_Parent = treePath,
                    tree_Description = getDescription ext path, tree_DotDot = Dir treePath,
                    tree_Files = files \<rparr>)))"

definition Blob :: "'r World \<Rightarrow> Config \<Rightarrow> 'b Request \<Rightarrow> RepoBlobResponse response" where
  "Blob ext c r =
     (let treePath = URLParam r ''*'';
          ref = PathUnescape (URLParam r ''ref'');
          path = fst (SecureJoin ext (ScanPath c) (didPath ext r))
      in (case Open ext path ref of
           Inl err \<Rightarrow> NotFound
         | Inr gr \<Rightarrow>
             let (contents, err) = FileContent ext gr treePath;
                 showFile = (\<lambda>isBinaryFile.
                   let bytes = contents; sizeHint = length bytes
                   in ShowFile \<lparr> blob_Ref = ref, Contents = bytes, blob_Path = treePath,
                        IsBinary = isBinaryFile, SizeHint = sizeHint \<rparr>)
             in (case err of
                  None \<Rightarrow> showFile False
                | Some e \<Rightarrow>
                    if kind e = ErrBinaryFile then showFile True
                    else if kind e = ErrFileNotFound then NotFound
                    else WriteError (Error e) 500)))"

definition setContentDisposition :: "(string \<times> string) list \<Rightarrow> string \<Rightarrow> (string \<times> string) list" where
  \<comment> \<open>\<open>w.Header().Add\<close> appends to the header\<close>
  "setContentDisposition w name =
     (let h = ''inline; filename='' @ [CHR 0x22] @ name @ [CHR 0x22]
      in w @ [(''Content-Disposition'', h)])"

definition setMIME :: "(string \<times> string) list \<Rightarrow> string \<Rightarrow> (string \<times> string) list" where
  "setMIME w mime = w @ [(''Content-Type'', mime)]"

definition setGZipMIME :: "(string \<times> string) list \<Rightarrow> (string \<times> string) list" where
  "setGZipMIME w = setMIME w ''application/gzip''"

definition Archive ::
  "'r World \<Rightarrow> Config \<Rightarrow> 'b Request \<Rightarrow> (string \<times> string) list \<times> TarEntry list response" where
  \<comment> \<open>the header of the response, and the response; \<open>WriteTar\<close> hands back what it wrote
      before it returned, with or without an error\<close>
  "Archive ext c r =
     (let name = URLParam r ''name'';
          file = URLParam r ''file''
      in if \<not> HasSuffix file ''.tar.gz'' then ([], NotFound)
         else
           let ref = TrimSuffix file ''.tar.gz'';
               filename = name @ ''-'' @ ref @ ''.tar.gz'';
               w = setGZipMIME (setContentDisposition [] filename);
               path = fst (SecureJoin ext (ScanPath c) (didPath ext r))
           in (case Open ext path ref of
                Inl err \<Rightarrow> (w, NotFound)
              | Inr gr \<Rightarrow>
                  let prefix = name @ ''-'' @ ref
                  in (w, Gzip (fst (WriteTar ext gr prefix)))))"

definition Diff_handler :: "'r World \<Rightarrow> Config \<Rightarrow> 'b Request \<Rightarrow> (string \<times> string) response" where
  \<comment> \<open>\<open>Handle.Diff\<close>; the body is \<open>RepoCommitResponse{Ref, Diff}\<close>\<close>
  "Diff_handler ext c r =
     (let ref = PathUnescape (URLParam r ''ref'');
          path = fst (SecureJoin ext (ScanPath c) (didPath ext r))
      in (case Open ext path ref of
           Inl err \<Rightarrow> NotFound
         | Inr gr \<Rightarrow>
             (case Diff ext gr of
                Inl err \<Rightarrow> WriteError (Error err) 500
              | Inr diff \<Rightarrow> WriteJSON (ref, diff))))"

definition Tags_handler :: "'r World \<Rightarrow> Config \<Rightarrow> 'b Request \<Rightarrow> TagReference list response" where
  \<comment> \<open>\<open>Handle.Tags\<close>; the body is \<open>RepoTagsResponse{Tags}\<close>\<close>
  "Tags_handler ext c r =
     (let path = fst (SecureJoin ext (ScanPath c) (didPath ext r))
      in (case Open ext path [] of
           Inl err \<Rightarrow> NotFound
         | Inr gr \<Rightarrow> WriteJSON (map toTagReference (fst (Tags ext gr)))))"

definition Branches_handler :: "'r World \<Rightarrow> Config \<Rightarrow> 'b Request \<Rightarrow> Branch list response" where
  \<comment> \<open>\<open>Handle.Branches\<close>; the body is \<open>RepoBranchesResponse{Branches}\<close>\<close>
  "Branches_handler ext c r =
     (let path = fst (SecureJoin ext (ScanPath c) (didPath ext r))
      in (case Open ext path [] of
           Inl err \<Rightarrow> NotFound
         | Inr gr \<Rightarrow>
             (case Branches ext gr of
                Inl err \<Rightarrow> WriteError (Error err) 500
              | Inr branches \<Rightarrow> WriteJSON (map toBranch branches))))"

definition ThisServer :: string where
  "ThisServer = ''thisserver''"

datatype call = InitBareCall string string | AddRepoCall string string string | RemoveAllCall string

definition NewRepo :: "'r World \<Rightarrow> Config \<Rightarrow> NewRepoData Request \<Rightarrow> unit response \<times> call list" where
  \<comment> \<open>the response, and the calls that change the node, in order\<close>
  "NewRepo ext c r =
     (case Body r of
        Inl err \<Rightarrow> (WriteError ''invalid request body'' 400, [])
      | Inr data0 \<Rightarrow>
          let data = (if DefaultBranch data0 = [] then data0 \<lparr> DefaultBranch := MainBranch c \<rparr>
                      else data0);
              did = Did data;
              name = Name data;
              defaultBranch = DefaultBranch data;
              relativeRepoPath = Join [did, name];
              repoPath = fst (SecureJoin ext (ScanPath c) relativeRepoPath)
          in (case InitBare ext repoPath defaultBranch of
               Some err \<Rightarrow>
                 (if kind err = ErrRepositoryAlreadyExists
                  then WriteError ''That repo already exists!'' 409
                  else WriteError (Error err) 500,
                  [InitBareCall repoPath defaultBranch])
             | None \<Rightarrow>
                 (case AddRepo ext did ThisServer relativeRepoPath of
                    Some err \<Rightarrow>
                      (WriteError (Error err) 500,
                       [InitBareCall repoPath defaultBranch,
                        AddRepoCall did ThisServer relativeRepoPath])
                  | None \<Rightarrow>
                      (WriteHeader 204,
                       [InitBareCall repoPath defaultBranch,
                        AddRepoCall did ThisServer relativeRepoPath]))))"

definition RemoveRepo :: "'r World \<Rightarrow> Config \<Rightarrow> RemoveRepoData Request \<Rightarrow> unit response \<times> call list" where
  "RemoveRepo ext c r =
     (case Body r of
        Inl err \<Rightarrow> (WriteError ''invalid request body'' 400, [])
      | Inr data \<Rightarrow>
          let did = remove_Did data;
              name = remove_Name data
          in if did = [] \<or> name = [] then (WriteHeader 400, [])
             else
               let relativeRepoPath = Join [did, name];
                   repoPath = fst (SecureJoin ext (ScanPath c) relativeRepoPath)
               in (case RemoveAll ext repoPath of
                    Some err \<Rightarrow> (WriteError (Error err) 500, [RemoveAllCall repoPath])
                  | None \<Rightarrow> (WriteHeader 204, [RemoveAllCall repoPath])))"

definition toConflictInfo :: "Conflict \<Rightarrow> ConflictInfo" where
  "toConflictInfo conflict =
     \<lparr> Filename = conflict_Filename conflict, Reason = conflict_Reason conflict \<rparr>"

definition Merge :: "'r World \<Rightarrow> Config \<Rightarrow> MergeRequest Request \<Rightarrow> MergeCheckResponse response" where
  "Merge ext c r =
     (let path = fst (SecureJoin ext (ScanPath c) (didPath ext r))
      in (case Body r of
           Inl err \<Rightarrow> WriteError (Error err) 400
         | Inr data \<Rightarrow>
             let mo = \<lparr> mo_AuthorName = AuthorName data, mo_AuthorEmail = AuthorEmail data,
                        mo_CommitBody = CommitBody data, mo_CommitMessage = CommitMessage data \<rparr>;
                 patch = Patch data;
                 branch = Branch data
             in (case Open ext path branch of
                  Inl err \<Rightarrow> NotFound
                | Inr gr \<Rightarrow>
                    (case MergeWithOptions ext gr patch branch mo of
                       Some err \<Rightarrow>
                         (case kind err of
                            ErrMerge mergeErr_Conflicts mergeErr_Message \<Rightarrow>
                              let conflicts = map toConflictInfo mergeErr_Conflicts
                              in WriteConflict \<lparr> IsConflicted = True, Conflicts = conflicts,
                                   Message = mergeErr_Message \<rparr>
                          | _ \<Rightarrow> WriteError (Error err) 400)
                     | None \<Rightarrow> WriteHeader 200))))"

definition MergeCheck :: "'r World \<Rightarrow> Config \<Rightarrow> MergeCheckData Request \<Rightarrow> MergeCheckResponse response" where
  "MergeCheck ext c r =
     (let path = fst (SecureJoin ext (ScanPath c) (didPath ext r))
      in (case Body r of
           Inl err \<Rightarrow> WriteError (Error err) 400
         | Inr data \<Rightarrow>
             let patch = check_Patch data;
                 branch = check_Branch data
             in (case Open ext path branch of
                  Inl err \<Rightarrow> NotFound
                | Inr gr \<Rightarrow>
                    (case MergeCheck_git ext gr patch branch of
                       None \<Rightarrow> WriteJSON \<lparr> IsConflicted = False, Conflicts = [], Message = [] \<rparr>
                     | Some err \<Rightarrow>
                         (case kind err of
                            ErrMerge mergeErr_Conflicts mergeErr_Message \<Rightarrow>
                              let conflicts = map toConflictInfo mergeErr_Conflicts
                              in WriteConflict \<lparr> IsConflicted = True, Conflicts = conflicts,
                                   Message = mergeErr_Message \<rparr>
                          | _ \<Rightarrow> WriteError (Error err) 500)))))"

section \<open>appview: the signing transport\<close>

record HttpRequest =
  Method :: string
  URL_Path :: string
  URL_RawQuery :: string
  Header :: "string \<Rightarrow> string list"
  req_Body :: string

definition Set :: "(string \<Rightarrow> string list) \<Rightarrow> string \<Rightarrow> string \<Rightarrow> (string \<Rightarrow> string list)" where
  \<comment> \<open>\<open>http.Header.Set\<close> for a key in canonical form: the key's values are replaced\<close>
  "Set h key v = h (key := [v])"

definition RoundTrip ::
  "(string \<Rightarrow> string \<Rightarrow> string) \<Rightarrow> string \<Rightarrow> string \<Rightarrow> HttpRequest \<Rightarrow> HttpRequest" where
  \<comment> \<open>\<open>SignerTransport.RoundTrip\<close> up to the call of the default transport: the request
      it hands over. \<open>hmac_sha256 key message\<close> is \<open>hmac.New(sha256.New, key)\<close> written
      \<open>message\<close> and summed, \<open>timestamp\<close> is \<open>time.Now().Format(time.RFC3339)\<close>,
      \<open>secret\<close> is \<open>s.Secret\<close>.\<close>
  "RoundTrip hmac_sha256 timestamp secret req =
     (let message = Method req @ URL_Path req @ timestamp;
          signature = EncodeToString (hmac_sha256 secret message)
      in req \<lparr> Header := Set (Set (Header req) ''X-Signature'' signature)
                              ''X-Timestamp'' timestamp \<rparr>)"

section \<open>A node to run the handlers on\<close>

text \<open>
  A concrete world for the handlers: a store of bare repositories by path, and the
  operations of package \<open>git\<close> on it, which follow the specification of the package.
\<close>

record Repo =
  repo_Commits :: "Commit list"
  repo_Branches :: "Reference list"
  repo_Tags :: "Tag list"
  repo_Tree :: "TarEntry list"

definition git_Open :: "(string \<Rightarrow> Repo option) \<Rightarrow> string \<Rightarrow> string \<Rightarrow> error + Repo" where
  \<comment> \<open>Modelled from the spec: \<open>git.Open\<close> (section 4.1) fails with RepositoryNotFound when
      the path holds no object store and with ReferenceNotFound when no commits exist
      yet or the reference names no branch or tag; the empty reference is the default
      one.\<close>
  "git_Open store path ref =
     (case store path of
        None \<Rightarrow> Inl (Err ErrOther ''repository does not exist'')
      | Some repo \<Rightarrow>
          if repo_Commits repo = [] then Inl (Err ErrReferenceNotFound ''reference not found'')
          else if ref = [] \<or> ref \<in> set (map ref_Name (repo_Branches repo))
                  \<or> ref \<in> set (map tag_Name (repo_Tags repo))
          then Inr repo
          else Inl (Err ErrReferenceNotFound ''reference not found''))"

definition isBinary :: "string \<Rightarrow> bool" where
  \<comment> \<open>Modelled from the spec: binary content is inferred from a NUL byte (section 3).\<close>
  "isBinary content = (CHR 0x00 \<in> set content)"

definition git_FileContent :: "Repo \<Rightarrow> string \<Rightarrow> string \<times> error option" where
  \<comment> \<open>Modelled from the spec: \<open>FileContent\<close> (section 4.2) resolves the path to a blob,
      gives the BinaryFile signal rather than content bytes for a binary one, and fails
      with FileNotFound when the path is a tree or does not exist.\<close>
  "git_FileContent repo path =
     (case find (\<lambda>e. tar_Name e = path \<and> \<not> tar_IsDir e) (repo_Tree repo) of
        None \<Rightarrow> ([], Some (Err ErrFileNotFound ''file not found''))
      | Some e \<Rightarrow>
          if isBinary (tar_Content e) then ([], Some (Err ErrBinaryFile ''binary file''))
          else (tar_Content e, None))"

definition git_WriteTar :: "Repo \<Rightarrow> string \<Rightarrow> TarEntry list \<times> error option" where
  \<comment> \<open>Modelled from the spec: \<open>WriteTar\<close> (section 4.5) writes each entry of the resolved
      tree under \<open>prefix/\<close>, its mode preserved; \<open>repo_Tree\<close> lists the entries in the
      order of the walk.\<close>
  "git_WriteTar repo prefix =
     (map (\<lambda>e. e \<lparr> tar_Name := prefix @ ''/'' @ tar_Name e \<rparr>) (repo_Tree repo), None)"

definition plainSecureJoin :: "string \<Rightarrow> string \<Rightarrow> string \<times> error option" where
  \<comment> \<open>what \<open>securejoin.SecureJoin\<close> returns on a file system without symbolic links:
      the empty path and an error for a root with a \<open>..\<close> element, else the root
      joined with the cleaned, rooted path\<close>
  "plainSecureJoin root unsafePath =
     (if ''..'' \<in> set (splitSlash root)
      then ([], Some (Err ErrOther ''root path contains ..''))
      else (Join [root, Join [''/'', unsafePath]], None))"

definition conflictsOf :: "string \<Rightarrow> Conflict list" where
  \<comment> \<open>a stand-in for the patch engine: a patch conflicts in the files its lines name\<close>
  "conflictsOf patch =
     map (\<lambda>f. \<lparr> conflict_Filename = f, conflict_Reason = ''context-mismatch'' \<rparr>)
       (filter (\<lambda>f. f \<noteq> []) (splitSlash patch))"

definition mergeOutcome :: "string \<Rightarrow> error option" where
  "mergeOutcome patch =
     (if conflictsOf patch = [] then None
      else Some (Err (ErrMerge (conflictsOf patch) ''patch failed to apply'') ''merge failed''))"

definition nodeWorld :: "(string \<Rightarrow> Repo option) \<Rightarrow> Repo World" where
  "nodeWorld store =
     \<lparr> SecureJoin = plainSecureJoin,
       ReadFile = (\<lambda>path. Inl (Err ErrOther ''no such file'')),
       Open = git_Open store,
       Commits = (\<lambda>repo. (repo_Commits repo, None)),
       Branches = (\<lambda>repo. Inr (repo_Branches repo)),
       Tags = (\<lambda>repo. (repo_Tags repo, None)),
       FileContent = git_FileContent,
       FileTree = (\<lambda>repo path. Inr []),
       FindMainBranch = (\<lambda>repo. Inr ''main''),
       Diff = (\<lambda>repo. Inr []),
       WriteTar = git_WriteTar,
       MergeCheck_git = (\<lambda>repo patch branch. mergeOutcome patch),
       MergeWithOptions = (\<lambda>repo patch branch mo. mergeOutcome patch),
       InitBare = (\<lambda>path branch.
         if store path = None then None
         else Some (Err ErrRepositoryAlreadyExists ''repository already exists'')),
       RemoveAll = (\<lambda>path. None),
       AddRepo = (\<lambda>did server path. None) \<rparr>"

definition commitsFrom :: "nat \<Rightarrow> Commit list" where
  \<comment> \<open>\<open>n\<close> commits, the newest first\<close>
  "commitsFrom n = map (\<lambda>i. Commit (replicate (Suc i) CHR ''c'') ''message'') (rev [0..<n])"

definition demoRepo :: Repo where
  "demoRepo =
     \<lparr> repo_Commits = commitsFrom 12,
       repo_Branches = [\<lparr> ref_Name = ''main'', ref_Hash = replicate 12 CHR ''c'' \<rparr>],
       repo_Tags = [],
       repo_Tree =
         [\<lparr> tar_Name = ''README.md'', tar_Mode = 420, tar_IsDir = False, tar_Content = ''hello'' \<rparr>,
          \<lparr> tar_Name = ''bin'', tar_Mode = 493, tar_IsDir = True, tar_Content = [] \<rparr>,
          \<lparr> tar_Name = ''bin/tool'', tar_Mode = 493, tar_IsDir = False,
            tar_Content = [CHR 0x7F, CHR ''E'', CHR 0x00, CHR ''F''] \<rparr>] \<rparr>"

definition emptyRepo :: Repo where
  "emptyRepo = \<lparr> repo_Commits = [], repo_Branches = [], repo_Tags = [], repo_Tree = [] \<rparr>"

definition demoStore :: "string \<Rightarrow> Repo option" where
  "demoStore path =
     (if path = ''/srv/git/did:plc:a/repo'' then Some demoRepo
      else if path = ''/srv/git/did:plc:a/new'' then Some emptyRepo
      else None)"

definition demoWorld :: "Repo World" where
  "demoWorld = nodeWorld demoStore"

definition demoConfig :: Config where
  "demoConfig = \<lparr> ScanPath = ''/srv/git'', MainBranch = ''main'', Readme = [''README.md''] \<rparr>"

definition demoRequest :: "string \<Rightarrow> (string \<times> string) list \<Rightarrow> (string \<times> string) list \<Rightarrow> 'b \<Rightarrow> 'b Request" where
  \<comment> \<open>a request for repository \<open>name\<close> of \<open>did:plc:a\<close>, with further URL parameters, a
      query and a decoded body\<close>
  "demoRequest name params query body =
     \<lparr> URLParam = (\<lambda>key. case map_of ((''did'', ''did:plc:a'') # (''name'', name) # params) key of
                            None \<Rightarrow> [] | Some v \<Rightarrow> v),
       Query = (\<lambda>key. case map_of query key of None \<Rightarrow> [] | Some v \<Rightarrow> [v]),
       Body = Inr body \<rparr>"

section \<open>Pagination of the log\<close>

text \<open>
  The page, the page size and the slice that \<open>Handle.Log\<close> computes, named for the
  proofs, and the query values that the handler replaces by its defaults.
\<close>

definition numeric :: "string \<Rightarrow> bool" where
  \<comment> \<open>a decimal numeral: one or more digits after an optional sign\<close>
  "numeric s =
     (case s of
        [] \<Rightarrow> False
      | c # cs \<Rightarrow> (let ds = (if c = CHR ''-'' \<or> c = CHR ''+'' then cs else s)
                  in ds \<noteq> [] \<and> list_all isDigit ds))"

definition numericValue :: "string \<Rightarrow> int" where
  \<comment> \<open>the number a decimal numeral denotes\<close>
  "numericValue s =
     (case s of
        [] \<Rightarrow> 0
      | c # cs \<Rightarrow> if c = CHR ''-'' then - digitsValue 0 cs
                else if c = CHR ''+'' then digitsValue 0 cs
                else digitsValue 0 s)"

definition malformed :: "string list \<Rightarrow> bool" where
  \<comment> \<open>the values of a query parameter that is absent, not a number, zero or negative\<close>
  "malformed vs = (case vs of [] \<Rightarrow> True | v # _ \<Rightarrow> \<not> numeric v \<or> numericValue v \<le> 0)"

definition withQuery :: "'b Request \<Rightarrow> string \<Rightarrow> string \<Rightarrow> 'b Request" where
  "withQuery r key v = r \<lparr> Query := (Query r) (key := [v]) \<rparr>"

definition pageOf :: "'b Request \<Rightarrow> int" where
  "pageOf r =
     (let pageParam = Get (Query r) ''page''
      in if pageParam \<noteq> [] then
           (case Atoi pageParam of Some p \<Rightarrow> if p > 0 then p else 1 | None \<Rightarrow> 1)
         else 1)"

definition pageSizeOf :: "'b Request \<Rightarrow> int" where
  "pageSizeOf r =
     (let pageSizeParam = Get (Query r) ''per_page''
      in if pageSizeParam \<noteq> [] then
           (case Atoi pageSizeParam of Some ps \<Rightarrow> if ps > 0 then ps else 30 | None \<Rightarrow> 30)
         else 30)"

definition paginate :: "Commit list \<Rightarrow> int \<Rightarrow> int \<Rightarrow> panic + Commit list" where
  "paginate commits page pageSize =
     (let start = wrap64 (wrap64 (page - 1) * pageSize);
          end1 = wrap64 (start + pageSize);
          total = int (length commits)
      in if start \<ge> total then Inr []
         else slice commits start (if end1 > total then total else end1))"

section \<open>Status codes and requests for the properties\<close>

fun StatusCode :: "nat \<Rightarrow> 'b response \<Rightarrow> nat" where
  \<comment> \<open>Modelled from the spec: the status each response writer sends (sections 6 and 7):
      200 with a JSON body or a stream, 404 for not found, the status handed to
      \<open>writeError\<close> and \<open>WriteHeader\<close>. The spec gives no single status for
      \<open>writeConflict\<close>: it is the parameter \<open>conflictStatus\<close>.\<close>
  "StatusCode conflictStatus (WriteJSON body) = 200"
| "StatusCode conflictStatus (WriteError msg status) = status"
| "StatusCode conflictStatus NotFound = 404"
| "StatusCode conflictStatus (WriteConflict body) = conflictStatus"
| "StatusCode conflictStatus (ShowFile body) = 200"
| "StatusCode conflictStatus (WriteHeader status) = status"
| "StatusCode conflictStatus (Gzip body) = 200"

definition repoPath :: "'r World \<Rightarrow> Config \<Rightarrow> 'b Request \<Rightarrow> string" where
  \<comment> \<open>\<open>path, _ := securejoin.SecureJoin(h.c.Repo.ScanPath, didPath(r))\<close>, the first
      statement of every handler that opens a repository\<close>
  "repoPath ext c r = fst (SecureJoin ext (ScanPath c) (didPath ext r))"

definition demoMergeRequest :: "string \<Rightarrow> MergeRequest Request" where
  "demoMergeRequest patch =
     demoRequest ''repo'' [] []
       \<lparr> Patch = patch, Branch = ''main'', AuthorName = ''A'', AuthorEmail = ''a@example.org'',
         CommitBody = [], CommitMessage = ''merge'' \<rparr>"

definition demoCheckRequest :: "string \<Rightarrow> MergeCheckData Request" where
  "demoCheckRequest patch =
     demoRequest ''repo'' [] [] \<lparr> check_Patch = patch, check_Branch = ''main'' \<rparr>"

definition branchOf :: "Config \<Rightarrow> NewRepoData \<Rightarrow> string" where
  \<comment> \<open>the requested default branch, the configured main branch when it is omitted (the
      decoder then leaves the field empty) or empty\<close>
  "branchOf c data = (if DefaultBranch data = [] then MainBranch c else DefaultBranch data)"

definition newRepoPath :: "'r World \<Rightarrow> Config \<Rightarrow> NewRepoData \<Rightarrow> string" where
  "newRepoPath ext c data = fst (SecureJoin ext (ScanPath c) (Join [Did data, Name data]))"

definition demoNewRepo :: "string \<Rightarrow> string \<Rightarrow> NewRepoData Request" where
  "demoNewRepo name branch =
     demoRequest [] [] [] \<lparr> Did = ''did:plc:a'', Name = name, DefaultBranch = branch \<rparr>"

definition failingInit :: "Repo World \<Rightarrow> Repo World" where
  \<comment> \<open>a world whose disk is full\<close>
  "failingInit ext = ext \<lparr> InitBare := (\<lambda>path branch. Some (Err ErrOther ''no space left on device'')) \<rparr>"

definition demoMAC :: "string \<Rightarrow> string \<Rightarrow> string" where
  \<comment> \<open>a stand-in for HMAC-SHA256 in examples: any function of key and message serves\<close>
  "demoMAC key message = map (\<lambda>ch. char_of (byte ch + length key)) message"

definition demoHttpRequest :: "string \<Rightarrow> string \<Rightarrow> HttpRequest" where
  "demoHttpRequest query body =
     \<lparr> Method = ''POST'', URL_Path = ''/did:plc:a/repo/merge'', URL_RawQuery = query,
       Header = (\<lambda>key. if key = ''X-Signature'' then [''forged''] else []), req_Body = body \<rparr>"

definition underPrefix :: "string \<Rightarrow> string \<Rightarrow> bool" where
  \<comment> \<open>the entry name lies under the directory \<open>prefix\<close>\<close>
  "underPrefix prefix name = (take (length prefix + 1) name = prefix @ ''/'')"

definition entriesOf :: "TarEntry list response \<Rightarrow> TarEntry list" where
  \<comment> \<open>the tar entries of a streamed archive\<close>
  "entriesOf resp = (case resp of Gzip entries \<Rightarrow> entries | _ \<Rightarrow> [])"

section \<open>Paths under the scan root\<close>

definition properName :: "string \<Rightarrow> bool" where
  \<comment> \<open>a path element that names an entry of its directory\<close>
  "properName e = (e \<noteq> [] \<and> e \<noteq> ''.'' \<and> e \<noteq> ''..'')"

definition under :: "string \<Rightarrow> string \<Rightarrow> bool" where
  \<comment> \<open>\<open>path\<close> is \<open>root\<close> or \<open>root\<close> followed by proper names, each after one separator\<close>
  "under root path =
     (path = root \<or>
      (take (length root + 1) path = root @ ''/''
       \<and> list_all properName (splitSlash (drop (length root + 1) path))))"

definition cleanAbs :: "string \<Rightarrow> bool" where
  \<comment> \<open>a cleaned absolute path other than the root directory\<close>
  "cleanAbs root =
     (root \<noteq> [] \<and> hd root = CHR ''/'' \<and> list_all properName (splitSlash (tl root)))"

definition loopWorld :: "Repo World" where
  \<comment> \<open>a node on which \<open>SecureJoin\<close> fails for \<open>did:plc:a/loop\<close> under the scan root (a
      symbolic link to itself, say) and whose working directory, the empty path, holds a
      repository\<close>
  "loopWorld =
     (nodeWorld (\<lambda>path. if path = [] then Some demoRepo else demoStore path))
       \<lparr> SecureJoin := (\<lambda>root unsafePath.
           if root = ''/srv/git'' \<and> unsafePath = ''did:plc:a/loop''
           then ([], Some (Err ErrOther ''too many levels of symbolic links''))
           else plainSecureJoin root unsafePath) \<rparr>"

definition traversalRequest :: "unit Request" where
  "traversalRequest =
     \<lparr> URLParam = (\<lambda>key. if key = ''did'' then ''did:plc:a''
                          else if key = ''name'' then ''../../../etc/passwd'' else []),
       Query = (\<lambda>key. []), Body = Inr () \<rparr>"

section \<open>The repository index\<close>

text \<open>
  C9. For a repository that opens and whose commits are listed without error, every
  index response carries the first ten commits of the list (the list is newest first,
  so the ten newest; all of them when there are fewer), and \<open>TotalCommits\<close> is the
  length of the whole list, taken before it is cut.
\<close>

theorem RepoIndex_ten_newest_commits:
  assumes "Open ext (fst (SecureJoin ext (ScanPath c) (didPath ext r)))
             (PathUnescape (URLParam r ''ref'')) = Inr gr"
    and "Commits ext gr = (commits, None)"
    and "RepoIndex ext c r = WriteJSON resp"
  shows "index_Commits resp = take 10 commits \<and> length (index_Commits resp) \<le> 10
         \<and> TotalCommits resp = int (length commits)"
  using assms
  by (auto simp: RepoIndex_def Let_def split: sum.splits if_splits)

theorem RepoIndex_ten_newest_commits_witness:
  "RepoIndex demoWorld demoConfig (demoRequest ''repo'' [] [] ()) =
     WriteJSON \<lparr> IsEmpty = False, index_Ref = ''main'', index_Commits = take 10 (commitsFrom 12),
       index_Description = [], index_Readme = ''hello'', index_ReadmeFileName = ''README.md'',
       index_Files = [],
       index_Branches = [\<lparr> branch_Name = ''main'', branch_Hash = replicate 12 CHR ''c'' \<rparr>],
       index_Tags = [], TotalCommits = 12 \<rparr>
   \<and> length (take 10 (commitsFrom 12)) \<le> 10 \<and> length (commitsFrom 12) = 12"
proof -
  let ?r = "demoRequest ''repo'' [] [] ()"
  have o: "Open demoWorld (fst (SecureJoin demoWorld (ScanPath demoConfig) (didPath demoWorld ?r)))
             (PathUnescape (URLParam ?r ''ref'')) = Inr demoRepo"
    by code_simp
  have cs: "Commits demoWorld demoRepo = (commitsFrom 12, None)"
    by code_simp
  have ix: "RepoIndex demoWorld demoConfig ?r =
     WriteJSON \<lparr> IsEmpty = False, index_Ref = ''main'', index_Commits = take 10 (commitsFrom 12),
       index_Description = [], index_Readme = ''hello'', index_ReadmeFileName = ''README.md'',
       index_Files = [],
       index_Branches = [\<lparr> branch_Name = ''main'', branch_Hash = replicate 12 CHR ''c'' \<rparr>],
       index_Tags = [], TotalCommits = 12 \<rparr>"
    by code_simp
  from RepoIndex_ten_newest_commits [OF o cs ix] ix show ?thesis
    by simp
qed

section \<open>The commit log\<close>

lemma Log_paginate:
  "Log ext c r =
     (let ref = URLParam r ''ref'';
          path = fst (SecureJoin ext (ScanPath c) (didPath ext r))
      in case Open ext path ref of
           Inl err \<Rightarrow> Inr NotFound
         | Inr gr \<Rightarrow>
             (case Commits ext gr of
                (commits, Some err) \<Rightarrow> Inr (WriteError (Error err) 500)
              | (commits, None) \<Rightarrow>
                  (case paginate commits (pageOf r) (pageSizeOf r) of
                     Inl p \<Rightarrow> Inl p
                   | Inr commits' \<Rightarrow>
                       Inr (WriteJSON \<lparr> log_Commits = commits', log_Ref = ref,
                              log_Description = getDescription ext path, Log_flag = True,
                              Total = int (length commits), Page = pageOf r,
                              PerPage = pageSizeOf r \<rparr>))))"
  unfolding Log_def pageOf_def pageSizeOf_def paginate_def Let_def
  by (rule refl)

lemma Atoi_not_numeric: "\<not> numeric s \<Longrightarrow> Atoi s = None"
  by (auto simp: numeric_def Atoi_def Let_def split: list.splits if_splits)

lemma Atoi_numeric: "Atoi s = Some v \<Longrightarrow> v = numericValue s"
  by (auto simp: numericValue_def Atoi_def Let_def split: list.splits if_splits)

lemma Atoi_1: "Atoi ''1'' = Some 1" by code_simp
lemma Atoi_30: "Atoi ''30'' = Some 30" by code_simp

lemma malformed_default:
  assumes "malformed vs"
  shows "(let p = (case vs of [] \<Rightarrow> [] | x # _ \<Rightarrow> x)
          in if p \<noteq> [] then (case Atoi p of Some v \<Rightarrow> if v > 0 then v else d | None \<Rightarrow> d) else d) = d"
proof (cases vs)
  case Nil
  then show ?thesis by simp
next
  case (Cons v rest)
  show ?thesis
  proof (cases "Atoi v")
    case None
    with Cons show ?thesis by simp
  next
    case (Some n)
    with Atoi_not_numeric [of v] have "numeric v" by auto
    with assms Cons have "numericValue v \<le> 0" by (simp add: malformed_def)
    with Atoi_numeric [OF Some] have "n \<le> 0" by simp
    with Cons Some show ?thesis by simp
  qed
qed

lemma pageOf_malformed: "malformed (Query r ''page'') \<Longrightarrow> pageOf r = 1"
  using malformed_default [of "Query r ''page''" 1]
  by (simp add: pageOf_def Get_def Let_def)

lemma pageSizeOf_malformed: "malformed (Query r ''per_page'') \<Longrightarrow> pageSizeOf r = 30"
  using malformed_default [of "Query r ''per_page''" 30]
  by (simp add: pageSizeOf_def Get_def Let_def)

lemma pageOf_withQuery_page: "pageOf (withQuery r ''page'' ''1'') = 1"
  by (simp add: pageOf_def withQuery_def Get_def Atoi_1)

lemma pageSizeOf_withQuery_per_page: "pageSizeOf (withQuery r ''per_page'' ''30'') = 30"
  by (simp add: pageSizeOf_def withQuery_def Get_def Atoi_30)

lemma pageOf_withQuery_per_page: "pageOf (withQuery r ''per_page'' v) = pageOf r"
  by (simp add: pageOf_def withQuery_def Get_def)

lemma pageSizeOf_withQuery_page: "pageSizeOf (withQuery r ''page'' v) = pageSizeOf r"
  by (simp add: pageSizeOf_def withQuery_def Get_def)

lemma didPath_withQuery: "didPath ext (withQuery r key v) = didPath ext r"
  by (simp add: didPath_def withQuery_def)

lemma URLParam_withQuery: "URLParam (withQuery r key v) = URLParam r"
  by (simp add: withQuery_def)

lemma Log_malformed_page:
  "malformed (Query r ''page'') \<Longrightarrow> Log ext c r = Log ext c (withQuery r ''page'' ''1'')"
  by (simp only: Log_paginate pageOf_malformed pageOf_withQuery_page pageSizeOf_withQuery_page
        didPath_withQuery URLParam_withQuery)

lemma Log_malformed_per_page:
  "malformed (Query r ''per_page'') \<Longrightarrow> Log ext c r = Log ext c (withQuery r ''per_page'' ''30'')"
  by (simp only: Log_paginate pageSizeOf_malformed pageSizeOf_withQuery_per_page
        pageOf_withQuery_per_page didPath_withQuery URLParam_withQuery)

lemma wrap64_id: "- (2 ^ 63) \<le> x \<Longrightarrow> x < 2 ^ 63 \<Longrightarrow> wrap64 x = x"
  by (simp add: wrap64_def)

lemma paginate_first_page:
  "paginate commits 1 30 = Inr (take 30 commits)"
  by (auto simp: paginate_def wrap64_id slice_def Let_def)


lemma Log_both_malformed:
  assumes "malformed (Query r ''page'')" and "malformed (Query r ''per_page'')"
  shows "Log ext c r =
     (let ref = URLParam r ''ref'';
          path = fst (SecureJoin ext (ScanPath c) (didPath ext r))
      in case Open ext path ref of
           Inl err \<Rightarrow> Inr NotFound
         | Inr gr \<Rightarrow>
             (case Commits ext gr of
                (commits, Some err) \<Rightarrow> Inr (WriteError (Error err) 500)
              | (commits, None) \<Rightarrow>
                  Inr (WriteJSON \<lparr> log_Commits = take 30 commits, log_Ref = ref,
                         log_Description = getDescription ext path, Log_flag = True,
                         Total = int (length commits), Page = 1, PerPage = 30 \<rparr>)))"
  by (simp add: Log_paginate pageOf_malformed [OF assms(1)] pageSizeOf_malformed [OF assms(2)]
        paginate_first_page Let_def split: sum.splits option.splits prod.splits)

text \<open>
  C10. A \<open>page\<close> or \<open>per_page\<close> value that is absent, not a number, zero or negative
  is replaced by its default: the log of such a request is the log of the request with
  \<open>page=1\<close>, respectively \<open>per_page=30\<close>, in its place. When both are malformed the
  handler does not fail on them: it answers with page 1 of size 30 whenever the
  repository opens and its commits are listed.
\<close>

theorem Log_malformed_params_use_defaults:
  "(malformed (Query r ''page'') \<longrightarrow> Log ext c r = Log ext c (withQuery r ''page'' ''1''))
   \<and> (malformed (Query r ''per_page'') \<longrightarrow>
        Log ext c r = Log ext c (withQuery r ''per_page'' ''30''))
   \<and> (malformed (Query r ''page'') \<and> malformed (Query r ''per_page'') \<longrightarrow>
        Log ext c r =
          (let ref = URLParam r ''ref'';
               path = fst (SecureJoin ext (ScanPath c) (didPath ext r))
           in case Open ext path ref of
                Inl err \<Rightarrow> Inr NotFound
              | Inr gr \<Rightarrow>
                  (case Commits ext gr of
                     (commits, Some err) \<Rightarrow> Inr (WriteError (Error err) 500)
                   | (commits, None) \<Rightarrow>
                       Inr (WriteJSON \<lparr> log_Commits = take 30 commits, log_Ref = ref,
                              log_Description = getDescription ext path, Log_flag = True,
                              Total = int (length commits), Page = 1, PerPage = 30 \<rparr>))))"
  using Log_malformed_page [of r ext c] Log_malformed_per_page [of r ext c]
    Log_both_malformed [of r ext c]
  by blast

theorem Log_malformed_params_use_defaults_witness:
  "malformed (Query (demoRequest ''repo'' [] [(''page'', ''abc''), (''per_page'', ''-5'')] ()) ''page'')
   \<and> malformed (Query (demoRequest ''repo'' [] [(''page'', ''abc''), (''per_page'', ''-5'')] ()) ''per_page'')
   \<and> Log demoWorld demoConfig (demoRequest ''repo'' [] [(''page'', ''abc''), (''per_page'', ''-5'')] ())
       = Inr (WriteJSON \<lparr> log_Commits = commitsFrom 12, log_Ref = [], log_Description = [],
                Log_flag = True, Total = 12, Page = 1, PerPage = 30 \<rparr>)
   \<and> Log demoWorld demoConfig (demoRequest ''repo'' [] [(''page'', ''abc''), (''per_page'', ''-5'')] ())
       = Log demoWorld demoConfig
           (withQuery (demoRequest ''repo'' [] [(''page'', ''abc''), (''per_page'', ''-5'')] ()) ''page'' ''1'')"
proof -
  let ?r = "demoRequest ''repo'' [] [(''page'', ''abc''), (''per_page'', ''-5'')] () :: unit Request"
  have m1: "malformed (Query ?r ''page'')" by code_simp
  have m2: "malformed (Query ?r ''per_page'')" by code_simp
  have v: "Log demoWorld demoConfig ?r
       = Inr (WriteJSON \<lparr> log_Commits = commitsFrom 12, log_Ref = [], log_Description = [],
                Log_flag = True, Total = 12, Page = 1, PerPage = 30 \<rparr>)"
    by code_simp
  from Log_malformed_params_use_defaults [of ?r demoWorld demoConfig] m1 m2 v
  show ?thesis by blast
qed

lemma paginate_beyond_last_page:
  assumes "0 < page" and "0 < pageSize" and "(page - 1) * pageSize < 2 ^ 63"
    and "int (length commits) \<le> (page - 1) * pageSize"
  shows "paginate commits page pageSize = Inr []"
proof -
  have "page - 1 \<le> (page - 1) * pageSize"
    using assms(1,2) by (simp add: mult_le_cancel_left1)
  with assms have "wrap64 (page - 1) = page - 1"
    by (intro wrap64_id) auto
  moreover from assms have "wrap64 ((page - 1) * pageSize) = (page - 1) * pageSize"
    by (intro wrap64_id) auto
  ultimately show ?thesis
    using assms(4) by (simp add: paginate_def Let_def)
qed

lemma Log_Total:
  assumes "Log ext c r = Inr (WriteJSON resp)"
    and "Open ext (fst (SecureJoin ext (ScanPath c) (didPath ext r))) (URLParam r ''ref'') = Inr gr"
  shows "Total resp = int (length (fst (Commits ext gr)))"
  using assms
  by (auto simp: Log_paginate Let_def split: sum.splits option.splits prod.splits)

text \<open>
  C4. A page beyond the last one is not always answered with an empty list: the
  product \<open>(page - 1) * pageSize\<close> wraps around in 64 bits. With twelve commits,
  \<open>page=4611686018427387905\<close> and \<open>per_page=4\<close> give offset 0 and the first four
  commits; with \<open>per_page=2\<close> the offset is negative and the slice expression panics.
  Where the product does not wrap, the list is empty (\<open>paginate_beyond_last_page\<close>),
  and every log response carries the whole count (\<open>Log_Total\<close>).
\<close>

theorem Log_page_overflow:
  "Log demoWorld demoConfig
     (demoRequest ''repo'' [] [(''page'', ''4611686018427387905''), (''per_page'', ''4'')] ())
   = Inr (WriteJSON \<lparr> log_Commits = take 4 (commitsFrom 12), log_Ref = [], log_Description = [],
            Log_flag = True, Total = 12, Page = 4611686018427387905, PerPage = 4 \<rparr>)
   \<and> Log demoWorld demoConfig
     (demoRequest ''repo'' [] [(''page'', ''4611686018427387905''), (''per_page'', ''2'')] ())
   = Inl SliceBoundsOutOfRange"
  by code_simp

section \<open>Merge and merge check\<close>

lemma Merge_conflict:
  assumes "Body r = Inr data"
    and "Open ext (repoPath ext c r) (Branch data) = Inr gr"
    and "MergeWithOptions ext gr (Patch data) (Branch data)
           \<lparr> mo_AuthorName = AuthorName data, mo_AuthorEmail = AuthorEmail data,
             mo_CommitBody = CommitBody data, mo_CommitMessage = CommitMessage data \<rparr> = Some err"
    and "kind err = ErrMerge conflicts message"
  shows "Merge ext c r =
           WriteConflict \<lparr> IsConflicted = True, Conflicts = map toConflictInfo conflicts,
             Message = message \<rparr>"
  using assms by (simp add: Merge_def repoPath_def Let_def)

lemma MergeCheck_conflict:
  assumes "Body r = Inr data"
    and "Open ext (repoPath ext c r) (check_Branch data) = Inr gr"
    and "MergeCheck_git ext gr (check_Patch data) (check_Branch data) = Some err"
    and "kind err = ErrMerge conflicts message"
  shows "MergeCheck ext c r =
           WriteConflict \<lparr> IsConflicted = True, Conflicts = map toConflictInfo conflicts,
             Message = message \<rparr>"
  using assms by (simp add: MergeCheck_def repoPath_def Let_def)

text \<open>
  C1, as the code has it. When the patch of a merge or merge-check request fails with a
  merge error, the handler calls \<open>writeConflict\<close> with \<open>is_conflicted = true\<close>, the
  error's summary message and the whole conflict list: one entry per conflict of the
  error, in the same order, with its filename and reason. Both handlers answer through
  the same writer, so both send the status \<open>writeConflict\<close> sends.
\<close>

theorem conflict_responses_complete:
  assumes "Body r = Inr data"
    and "Open ext (repoPath ext c r) (Branch data) = Inr gr"
    and "MergeWithOptions ext gr (Patch data) (Branch data)
           \<lparr> mo_AuthorName = AuthorName data, mo_AuthorEmail = AuthorEmail data,
             mo_CommitBody = CommitBody data, mo_CommitMessage = CommitMessage data \<rparr> = Some err"
    and "kind err = ErrMerge conflicts message"
    and "Body r' = Inr data'"
    and "Open ext (repoPath ext c r') (check_Branch data') = Inr gr'"
    and "MergeCheck_git ext gr' (check_Patch data') (check_Branch data') = Some err'"
    and "kind err' = ErrMerge conflicts' message'"
  shows "(\<exists>body. Merge ext c r = WriteConflict body \<and> IsConflicted body \<and> Message body = message
            \<and> length (Conflicts body) = length conflicts
            \<and> (\<forall>i < length conflicts.
                  Filename (Conflicts body ! i) = conflict_Filename (conflicts ! i)
                  \<and> Reason (Conflicts body ! i) = conflict_Reason (conflicts ! i)))
       \<and> (\<exists>body. MergeCheck ext c r' = WriteConflict body \<and> IsConflicted body
            \<and> Message body = message'
            \<and> length (Conflicts body) = length conflicts'
            \<and> (\<forall>i < length conflicts'.
                  Filename (Conflicts body ! i) = conflict_Filename (conflicts' ! i)
                  \<and> Reason (Conflicts body ! i) = conflict_Reason (conflicts' ! i)))
       \<and> StatusCode conflictStatus (Merge ext c r) = conflictStatus
       \<and> StatusCode conflictStatus (MergeCheck ext c r') = conflictStatus"
  using Merge_conflict [OF assms(1-4)] MergeCheck_conflict [OF assms(5-8)]
  by (simp add: toConflictInfo_def)

lemma demo_Merge:
  "Merge demoWorld demoConfig (demoMergeRequest ''a.txt/b.txt'') =
     WriteConflict \<lparr> IsConflicted = True,
       Conflicts = [\<lparr> Filename = ''a.txt'', Reason = ''context-mismatch'' \<rparr>,
                    \<lparr> Filename = ''b.txt'', Reason = ''context-mismatch'' \<rparr>],
       Message = ''patch failed to apply'' \<rparr>"
  by code_simp

lemma demo_MergeCheck:
  "MergeCheck demoWorld demoConfig (demoCheckRequest ''a.txt/b.txt'') =
     WriteConflict \<lparr> IsConflicted = True,
       Conflicts = [\<lparr> Filename = ''a.txt'', Reason = ''context-mismatch'' \<rparr>,
                    \<lparr> Filename = ''b.txt'', Reason = ''context-mismatch'' \<rparr>],
       Message = ''patch failed to apply'' \<rparr>"
  by code_simp

text \<open>
  C1 as stated fails: for a conflicting patch, merge and merge check give the same
  response, \<open>writeConflict\<close> of the same body. Whatever status \<open>writeConflict\<close> sends
  (200, 400 and 409 are shown), the answers are not 200 by merge check and 400 by merge.
\<close>

theorem conflict_status_counterexample:
  "Merge demoWorld demoConfig (demoMergeRequest ''a.txt/b.txt'')
     = MergeCheck demoWorld demoConfig (demoCheckRequest ''a.txt/b.txt'')
   \<and> \<not> (StatusCode 200 (MergeCheck demoWorld demoConfig (demoCheckRequest ''a.txt/b.txt'')) = 200
          \<and> StatusCode 200 (Merge demoWorld demoConfig (demoMergeRequest ''a.txt/b.txt'')) = 400)
   \<and> \<not> (StatusCode 400 (MergeCheck demoWorld demoConfig (demoCheckRequest ''a.txt/b.txt'')) = 200
          \<and> StatusCode 400 (Merge demoWorld demoConfig (demoMergeRequest ''a.txt/b.txt'')) = 400)
   \<and> \<not> (StatusCode 409 (MergeCheck demoWorld demoConfig (demoCheckRequest ''a.txt/b.txt'')) = 200
          \<and> StatusCode 409 (Merge demoWorld demoConfig (demoMergeRequest ''a.txt/b.txt'')) = 400)"
  by (simp add: demo_Merge demo_MergeCheck)

theorem conflict_responses_complete_witness:
  "Merge demoWorld demoConfig (demoMergeRequest ''a.txt/b.txt'') =
     WriteConflict \<lparr> IsConflicted = True,
       Conflicts = [\<lparr> Filename = ''a.txt'', Reason = ''context-mismatch'' \<rparr>,
                    \<lparr> Filename = ''b.txt'', Reason = ''context-mismatch'' \<rparr>],
       Message = ''patch failed to apply'' \<rparr>
   \<and> StatusCode 409 (Merge demoWorld demoConfig (demoMergeRequest ''a.txt/b.txt'')) = 409
   \<and> StatusCode 409 (MergeCheck demoWorld demoConfig (demoCheckRequest ''a.txt/b.txt'')) = 409"
proof -
  let ?r = "demoMergeRequest ''a.txt/b.txt''" and ?r' = "demoCheckRequest ''a.txt/b.txt''"
  let ?data = "\<lparr> Patch = ''a.txt/b.txt'', Branch = ''main'', AuthorName = ''A'',
                  AuthorEmail = ''a@example.org'', CommitBody = [], CommitMessage = ''merge'' \<rparr>"
  let ?data' = "\<lparr> check_Patch = ''a.txt/b.txt'', check_Branch = ''main'' \<rparr>"
  let ?err = "Err (ErrMerge (conflictsOf ''a.txt/b.txt'') ''patch failed to apply'') ''merge failed''"
  have 1: "Body ?r = Inr ?data" by code_simp
  have 2: "Open demoWorld (repoPath demoWorld demoConfig ?r) (Branch ?data) = Inr demoRepo"
    by code_simp
  have 3: "MergeWithOptions demoWorld demoRepo (Patch ?data) (Branch ?data)
           \<lparr> mo_AuthorName = AuthorName ?data, mo_AuthorEmail = AuthorEmail ?data,
             mo_CommitBody = CommitBody ?data, mo_CommitMessage = CommitMessage ?data \<rparr> = Some ?err"
    by code_simp
  have 4: "kind ?err = ErrMerge (conflictsOf ''a.txt/b.txt'') ''patch failed to apply''"
    by simp
  have 5: "Body ?r' = Inr ?data'" by code_simp
  have 6: "Open demoWorld (repoPath demoWorld demoConfig ?r') (check_Branch ?data') = Inr demoRepo"
    by code_simp
  have 7: "MergeCheck_git demoWorld demoRepo (check_Patch ?data') (check_Branch ?data') = Some ?err"
    by code_simp
  from conflict_responses_complete [OF 1 2 3 4 5 6 7 4, of 409] demo_Merge
  show ?thesis by simp
qed

section \<open>Creating a repository\<close>

lemma NewRepo_unfold:
  assumes "Body r = Inr data"
  shows "NewRepo ext c r =
     (case InitBare ext (newRepoPath ext c data) (branchOf c data) of
        Some err \<Rightarrow>
          (if kind err = ErrRepositoryAlreadyExists
           then WriteError ''That repo already exists!'' 409
           else WriteError (Error err) 500,
           [InitBareCall (newRepoPath ext c data) (branchOf c data)])
      | None \<Rightarrow>
          (case AddRepo ext (Did data) ThisServer (Join [Did data, Name data]) of
             Some err \<Rightarrow>
               (WriteError (Error err) 500,
                [InitBareCall (newRepoPath ext c data) (branchOf c data),
                 AddRepoCall (Did data) ThisServer (Join [Did data, Name data])])
           | None \<Rightarrow>
               (WriteHeader 204,
                [InitBareCall (newRepoPath ext c data) (branchOf c data),
                 AddRepoCall (Did data) ThisServer (Join [Did data, Name data])])))"
  unfolding NewRepo_def newRepoPath_def branchOf_def Let_def assms
  by (simp del: Join.simps split: option.splits)

text \<open>
  C5. A create-repo request whose body decodes is answered with 204 when the repository
  is initialised and registered with the enforcer, with 409 when \<open>git.InitBare\<close>
  reports that the repository already exists, and with 500 on any other failure of the
  initialisation (and of the registration). The repository is initialised with the
  requested default branch, and with the configured main branch when that is omitted
  or empty: \<open>InitBare\<close> is the first call, with that branch.
\<close>

theorem NewRepo_responses:
  assumes "Body r = Inr data"
  shows "(InitBare ext (newRepoPath ext c data) (branchOf c data) = None
          \<and> AddRepo ext (Did data) ThisServer (Join [Did data, Name data]) = None
          \<longrightarrow> fst (NewRepo ext c r) = WriteHeader 204)
       \<and> (\<forall>err. InitBare ext (newRepoPath ext c data) (branchOf c data) = Some err
            \<and> kind err = ErrRepositoryAlreadyExists
          \<longrightarrow> fst (NewRepo ext c r) = WriteError ''That repo already exists!'' 409)
       \<and> (\<forall>err. InitBare ext (newRepoPath ext c data) (branchOf c data) = Some err
            \<and> kind err \<noteq> ErrRepositoryAlreadyExists
          \<longrightarrow> fst (NewRepo ext c r) = WriteError (Error err) 500)
       \<and> (\<forall>err. InitBare ext (newRepoPath ext c data) (branchOf c data) = None
            \<and> AddRepo ext (Did data) ThisServer (Join [Did data, Name data]) = Some err
          \<longrightarrow> fst (NewRepo ext c r) = WriteError (Error err) 500)
       \<and> take 1 (snd (NewRepo ext c r))
            = [InitBareCall (newRepoPath ext c data) (branchOf c data)]"
  unfolding NewRepo_unfold [OF assms]
  by (simp del: Join.simps split: option.splits)

theorem NewRepo_responses_witness:
  "NewRepo demoWorld demoConfig (demoNewRepo ''fresh'' []) =
     (WriteHeader 204,
      [InitBareCall ''/srv/git/did:plc:a/fresh'' ''main'',
       AddRepoCall ''did:plc:a'' ThisServer ''did:plc:a/fresh''])
   \<and> fst (NewRepo demoWorld demoConfig (demoNewRepo ''repo'' ''trunk'')) =
       WriteError ''That repo already exists!'' 409
   \<and> NewRepo (failingInit demoWorld) demoConfig (demoNewRepo ''fresh'' ''trunk'') =
       (WriteError ''no space left on device'' 500,
        [InitBareCall ''/srv/git/did:plc:a/fresh'' ''trunk''])"
proof -
  let ?fresh = "\<lparr> Did = ''did:plc:a'', Name = ''fresh'', DefaultBranch = [] \<rparr>"
  let ?repo = "\<lparr> Did = ''did:plc:a'', Name = ''repo'', DefaultBranch = ''trunk'' \<rparr>"
  let ?full = "\<lparr> Did = ''did:plc:a'', Name = ''fresh'', DefaultBranch = ''trunk'' \<rparr>"
  let ?exists = "Err ErrRepositoryAlreadyExists ''repository already exists''"
  let ?nospace = "Err ErrOther ''no space left on device''"
  have b1: "Body (demoNewRepo ''fresh'' []) = Inr ?fresh" by code_simp
  have b2: "Body (demoNewRepo ''repo'' ''trunk'') = Inr ?repo" by code_simp
  have b3: "Body (demoNewRepo ''fresh'' ''trunk'') = Inr ?full" by code_simp
  have i1: "InitBare demoWorld (newRepoPath demoWorld demoConfig ?fresh) (branchOf demoConfig ?fresh) = None"
    by code_simp
  have a1: "AddRepo demoWorld (Did ?fresh) ThisServer (Join [Did ?fresh, Name ?fresh]) = None"
    by code_simp
  have i2: "InitBare demoWorld (newRepoPath demoWorld demoConfig ?repo) (branchOf demoConfig ?repo)
              = Some ?exists"
    by code_simp
  have i3: "InitBare (failingInit demoWorld) (newRepoPath (failingInit demoWorld) demoConfig ?full)
              (branchOf demoConfig ?full) = Some ?nospace"
    by code_simp
  have p1: "newRepoPath demoWorld demoConfig ?fresh = ''/srv/git/did:plc:a/fresh''"
    by code_simp
  have v1: "snd (NewRepo demoWorld demoConfig (demoNewRepo ''fresh'' [])) =
      [InitBareCall ''/srv/git/did:plc:a/fresh'' ''main'',
       AddRepoCall ''did:plc:a'' ThisServer ''did:plc:a/fresh'']"
    by code_simp
  have v3: "snd (NewRepo (failingInit demoWorld) demoConfig (demoNewRepo ''fresh'' ''trunk'')) =
      [InitBareCall ''/srv/git/did:plc:a/fresh'' ''trunk'']"
    by code_simp
  from NewRepo_responses [OF b1, of demoWorld demoConfig] i1 a1
  have "fst (NewRepo demoWorld demoConfig (demoNewRepo ''fresh'' [])) = WriteHeader 204"
    by blast
  moreover from NewRepo_responses [OF b2, of demoWorld demoConfig] i2
  have "fst (NewRepo demoWorld demoConfig (demoNewRepo ''repo'' ''trunk'')) =
          WriteError ''That repo already exists!'' 409"
    by simp
  moreover from NewRepo_responses [OF b3, of "failingInit demoWorld" demoConfig] i3
  have "fst (NewRepo (failingInit demoWorld) demoConfig (demoNewRepo ''fresh'' ''trunk'')) =
          WriteError ''no space left on device'' 500"
    by simp
  ultimately show ?thesis using v1 v3 by (simp add: prod_eq_iff)
qed

section \<open>The signed client\<close>

lemma hextable_nth: "n < 16 \<Longrightarrow> hextable ! n \<in> set hextable"
  by (rule nth_mem) (simp add: hextable_def)

lemma byte_less: "byte v < 256"
  by (simp add: byte_def)

lemma EncodeToString_lowercase: "set (EncodeToString src) \<subseteq> set hextable"
proof (induction src)
  case Nil
  then show ?case by simp
next
  case (Cons v src)
  have "byte v div 16 < 16" using byte_less [of v] by simp
  moreover have "byte v mod 16 < 16" by simp
  ultimately show ?case using Cons hextable_nth by simp
qed

lemma EncodeToString_length: "length (EncodeToString src) = 2 * length src"
  by (induction src) simp_all

text \<open>
  C7. The request that the signing transport hands on carries \<open>X-Timestamp\<close>, the
  generated timestamp, and \<open>X-Signature\<close>, the lowercase hexadecimal encoding (two
  digits per byte) of the MAC, keyed with the secret, of method, path and timestamp
  concatenated. The signature depends on nothing else of the request: requests with the
  same method and path get the same one, whatever their query, header and body. The
  transport changes nothing else of the request.
\<close>

theorem RoundTrip_signs_method_path_timestamp:
  "Header (RoundTrip mac t secret req) ''X-Timestamp'' = [t]
   \<and> Header (RoundTrip mac t secret req) ''X-Signature''
       = [EncodeToString (mac secret (Method req @ URL_Path req @ t))]
   \<and> (\<forall>sig \<in> set (Header (RoundTrip mac t secret req) ''X-Signature'').
         set sig \<subseteq> set ''0123456789abcdef''
         \<and> length sig = 2 * length (mac secret (Method req @ URL_Path req @ t)))
   \<and> (Method req' = Method req \<and> URL_Path req' = URL_Path req \<longrightarrow>
         Header (RoundTrip mac t secret req') ''X-Signature''
           = Header (RoundTrip mac t secret req) ''X-Signature'')
   \<and> (\<forall>key. key \<noteq> ''X-Signature'' \<and> key \<noteq> ''X-Timestamp'' \<longrightarrow>
         Header (RoundTrip mac t secret req) key = Header req key)
   \<and> Method (RoundTrip mac t secret req) = Method req
   \<and> URL_Path (RoundTrip mac t secret req) = URL_Path req
   \<and> URL_RawQuery (RoundTrip mac t secret req) = URL_RawQuery req
   \<and> req_Body (RoundTrip mac t secret req) = req_Body req"
  using EncodeToString_lowercase [of "mac secret (Method req @ URL_Path req @ t)"]
  by (simp add: RoundTrip_def Set_def Let_def EncodeToString_length hextable_def)

theorem RoundTrip_signs_method_path_timestamp_witness:
  "Header (RoundTrip demoMAC ''2025-01-02T03:04:05Z'' ''k'' (demoHttpRequest ''a=1'' ''{}''))
      ''X-Signature''
     = [EncodeToString (demoMAC ''k'' ''POST/did:plc:a/repo/merge2025-01-02T03:04:05Z'')]
   \<and> Header (RoundTrip demoMAC ''2025-01-02T03:04:05Z'' ''k'' (demoHttpRequest ''b=2'' ''[]''))
      ''X-Signature''
     = Header (RoundTrip demoMAC ''2025-01-02T03:04:05Z'' ''k'' (demoHttpRequest ''a=1'' ''{}''))
      ''X-Signature''
   \<and> Header (RoundTrip demoMAC ''2025-01-02T03:04:05Z'' ''k'' (demoHttpRequest ''a=1'' ''{}''))
      ''X-Timestamp'' = [''2025-01-02T03:04:05Z'']"
proof -
  let ?req = "demoHttpRequest ''a=1'' ''{}''" and ?req' = "demoHttpRequest ''b=2'' ''[]''"
  have m: "Method ?req' = Method ?req \<and> URL_Path ?req' = URL_Path ?req"
    by (simp add: demoHttpRequest_def)
  have msg: "Method ?req @ URL_Path ?req @ ''2025-01-02T03:04:05Z''
               = ''POST/did:plc:a/repo/merge2025-01-02T03:04:05Z''"
    by (simp add: demoHttpRequest_def)
  from RoundTrip_signs_method_path_timestamp
         [of demoMAC "''2025-01-02T03:04:05Z''" "''k''" ?req ?req'] m msg
  show ?thesis by simp
qed

section \<open>Empty repositories, blobs and archives\<close>

lemma RepoIndex_Open_error:
  assumes "Open ext (repoPath ext c r) (PathUnescape (URLParam r ''ref'')) = Inl err"
  shows "RepoIndex ext c r =
           (if kind err = ErrReferenceNotFound
            then WriteJSON (emptyIndexResponse \<lparr> IsEmpty := True \<rparr>) else NotFound)"
  using assms by (simp add: RepoIndex_def repoPath_def Let_def)

text \<open>
  C3. When \<open>git.Open\<close> fails with \<open>ErrReferenceNotFound\<close>, its error for a repository
  with no commits yet, the index is answered with a JSON body whose \<open>IsEmpty\<close> is true
  (and nothing else in it); when it fails with any other error, as for a path that holds
  no repository, the answer is not found.
\<close>

theorem RepoIndex_empty_or_not_found:
  assumes "Open ext (repoPath ext c r) (PathUnescape (URLParam r ''ref'')) = Inl err"
  shows "(kind err = ErrReferenceNotFound \<longrightarrow>
            (\<exists>resp. RepoIndex ext c r = WriteJSON resp \<and> IsEmpty resp
               \<and> index_Commits resp = [] \<and> TotalCommits resp = 0))
       \<and> (kind err \<noteq> ErrReferenceNotFound \<longrightarrow> RepoIndex ext c r = NotFound)"
  by (simp add: RepoIndex_Open_error [OF assms] emptyIndexResponse_def)

theorem RepoIndex_empty_or_not_found_witness:
  "git_Open demoStore ''/srv/git/did:plc:a/new'' [] = Inl (Err ErrReferenceNotFound ''reference not found'')
   \<and> repo_Commits emptyRepo = [] \<and> demoStore ''/srv/git/did:plc:a/new'' = Some emptyRepo
   \<and> RepoIndex demoWorld demoConfig (demoRequest ''new'' [] [] ())
        = WriteJSON (emptyIndexResponse \<lparr> IsEmpty := True \<rparr>)
   \<and> demoStore ''/srv/git/did:plc:a/none'' = None
   \<and> RepoIndex demoWorld demoConfig (demoRequest ''none'' [] [] ()) = NotFound"
proof -
  let ?new = "demoRequest ''new'' [] [] () :: unit Request"
  let ?none = "demoRequest ''none'' [] [] () :: unit Request"
  let ?e1 = "Err ErrReferenceNotFound ''reference not found''"
  let ?e2 = "Err ErrOther ''repository does not exist''"
  have o1: "Open demoWorld (repoPath demoWorld demoConfig ?new) (PathUnescape (URLParam ?new ''ref''))
              = Inl ?e1"
    by code_simp
  have o2: "Open demoWorld (repoPath demoWorld demoConfig ?none) (PathUnescape (URLParam ?none ''ref''))
              = Inl ?e2"
    by code_simp
  have s1: "git_Open demoStore ''/srv/git/did:plc:a/new'' [] = Inl ?e1" by code_simp
  have s2: "repo_Commits emptyRepo = [] \<and> demoStore ''/srv/git/did:plc:a/new'' = Some emptyRepo
            \<and> demoStore ''/srv/git/did:plc:a/none'' = None"
    by code_simp
  have v1: "RepoIndex demoWorld demoConfig ?new = WriteJSON (emptyIndexResponse \<lparr> IsEmpty := True \<rparr>)"
    by code_simp
  from RepoIndex_empty_or_not_found [OF o2]
  have "RepoIndex demoWorld demoConfig ?none = NotFound" by simp
  moreover from RepoIndex_empty_or_not_found [OF o1]
  have "\<exists>resp. RepoIndex demoWorld demoConfig ?new = WriteJSON resp \<and> IsEmpty resp" by auto
  ultimately show ?thesis using s1 s2 v1 by simp
qed

lemma Blob_relays_FileContent:
  assumes "Open ext (repoPath ext c r) (PathUnescape (URLParam r ''ref'')) = Inr gr"
    and "FileContent ext gr (URLParam r ''*'') = (contents, Some err)"
  shows "(kind err = ErrBinaryFile \<longrightarrow>
            Blob ext c r = ShowFile \<lparr> blob_Ref = PathUnescape (URLParam r ''ref''),
              Contents = contents, blob_Path = URLParam r ''*'', IsBinary = True,
              SizeHint = length contents \<rparr>)
       \<and> (kind err = ErrFileNotFound \<longrightarrow> Blob ext c r = NotFound)"
  using assms by (simp add: Blob_def repoPath_def Let_def)

lemma git_FileContent_binary:
  assumes "find (\<lambda>e. tar_Name e = path \<and> \<not> tar_IsDir e) (repo_Tree repo) = Some e"
    and "isBinary (tar_Content e)"
  shows "git_FileContent repo path = ([], Some (Err ErrBinaryFile ''binary file''))"
  using assms by (simp add: git_FileContent_def)

lemma git_FileContent_missing:
  assumes "find (\<lambda>e. tar_Name e = path \<and> \<not> tar_IsDir e) (repo_Tree repo) = None"
  shows "git_FileContent repo path = ([], Some (Err ErrFileNotFound ''file not found''))"
  using assms by (simp add: git_FileContent_def)

lemma git_FileContent_no_bytes_with_signal:
  "git_FileContent repo path = (contents, Some err) \<Longrightarrow> contents = []"
  by (auto simp: git_FileContent_def split: option.splits if_splits)

text \<open>
  C8. With \<open>FileContent\<close> as the specification describes it, a blob request whose path
  resolves to a binary blob is answered with \<open>IsBinary\<close> true, empty \<open>Contents\<close> and a
  size of 0: the handler relays what \<open>FileContent\<close> returns with the binary-file signal,
  and that is no bytes. A path that resolves to no file of the tree (it is missing, or
  a directory) is answered with not found.
\<close>

theorem Blob_binary_or_missing:
  assumes "Open ext (repoPath ext c r) (PathUnescape (URLParam r ''ref'')) = Inr repo"
    and "FileContent ext = git_FileContent"
  shows "(\<forall>e. find (\<lambda>e. tar_Name e = URLParam r ''*'' \<and> \<not> tar_IsDir e) (repo_Tree repo) = Some e
              \<and> isBinary (tar_Content e) \<longrightarrow>
            Blob ext c r = ShowFile \<lparr> blob_Ref = PathUnescape (URLParam r ''ref''),
              Contents = [], blob_Path = URLParam r ''*'', IsBinary = True, SizeHint = 0 \<rparr>)
       \<and> (find (\<lambda>e. tar_Name e = URLParam r ''*'' \<and> \<not> tar_IsDir e) (repo_Tree repo) = None
            \<longrightarrow> Blob ext c r = NotFound)"
proof (intro conjI allI impI)
  fix e
  assume "find (\<lambda>e. tar_Name e = URLParam r ''*'' \<and> \<not> tar_IsDir e) (repo_Tree repo) = Some e
            \<and> isBinary (tar_Content e)"
  then have "FileContent ext repo (URLParam r ''*'')
               = ([], Some (Err ErrBinaryFile ''binary file''))"
    by (simp add: assms(2) git_FileContent_binary)
  from Blob_relays_FileContent [OF assms(1) this]
  show "Blob ext c r = ShowFile \<lparr> blob_Ref = PathUnescape (URLParam r ''ref''),
          Contents = [], blob_Path = URLParam r ''*'', IsBinary = True, SizeHint = 0 \<rparr>"
    by simp
next
  assume "find (\<lambda>e. tar_Name e = URLParam r ''*'' \<and> \<not> tar_IsDir e) (repo_Tree repo) = None"
  then have "FileContent ext repo (URLParam r ''*'')
               = ([], Some (Err ErrFileNotFound ''file not found''))"
    by (simp add: assms(2) git_FileContent_missing)
  from Blob_relays_FileContent [OF assms(1) this]
  show "Blob ext c r = NotFound" by simp
qed

theorem Blob_binary_or_missing_witness:
  "Blob demoWorld demoConfig (demoRequest ''repo'' [(''*'', ''bin/tool'')] [] ())
     = ShowFile \<lparr> blob_Ref = [], Contents = [], blob_Path = ''bin/tool'', IsBinary = True,
         SizeHint = 0 \<rparr>
   \<and> Blob demoWorld demoConfig (demoRequest ''repo'' [(''*'', ''bin'')] [] ()) = NotFound
   \<and> Blob demoWorld demoConfig (demoRequest ''repo'' [(''*'', ''missing.txt'')] [] ()) = NotFound"
proof -
  let ?tool = "demoRequest ''repo'' [(''*'', ''bin/tool'')] [] () :: unit Request"
  let ?bin = "demoRequest ''repo'' [(''*'', ''bin'')] [] () :: unit Request"
  let ?missing = "demoRequest ''repo'' [(''*'', ''missing.txt'')] [] () :: unit Request"
  let ?e = "\<lparr> tar_Name = ''bin/tool'', tar_Mode = 493, tar_IsDir = False,
              tar_Content = [CHR 0x7F, CHR ''E'', CHR 0x00, CHR ''F''] \<rparr>"
  have o: "Open demoWorld (repoPath demoWorld demoConfig ?tool) (PathUnescape (URLParam ?tool ''ref''))
             = Inr demoRepo"
      "Open demoWorld (repoPath demoWorld demoConfig ?bin) (PathUnescape (URLParam ?bin ''ref''))
             = Inr demoRepo"
      "Open demoWorld (repoPath demoWorld demoConfig ?missing)
             (PathUnescape (URLParam ?missing ''ref'')) = Inr demoRepo"
    by code_simp+
  have fc: "FileContent demoWorld = git_FileContent"
    by (simp add: demoWorld_def nodeWorld_def)
  have f1: "find (\<lambda>e. tar_Name e = URLParam ?tool ''*'' \<and> \<not> tar_IsDir e) (repo_Tree demoRepo) = Some ?e
              \<and> isBinary (tar_Content ?e)"
    by code_simp
  have f2: "find (\<lambda>e. tar_Name e = URLParam ?bin ''*'' \<and> \<not> tar_IsDir e) (repo_Tree demoRepo) = None"
    by code_simp
  have f3: "find (\<lambda>e. tar_Name e = URLParam ?missing ''*'' \<and> \<not> tar_IsDir e) (repo_Tree demoRepo) = None"
    by code_simp
  have u: "PathUnescape (URLParam ?tool ''ref'') = [] \<and> URLParam ?tool ''*'' = ''bin/tool''"
    by code_simp
  from Blob_binary_or_missing [OF o(1) fc] f1
  have "Blob demoWorld demoConfig ?tool
          = ShowFile \<lparr> blob_Ref = PathUnescape (URLParam ?tool ''ref''), Contents = [],
              blob_Path = URLParam ?tool ''*'', IsBinary = True, SizeHint = 0 \<rparr>"
    by blast
  moreover from Blob_binary_or_missing [OF o(2) fc] f2
  have "Blob demoWorld demoConfig ?bin = NotFound" by blast
  moreover from Blob_binary_or_missing [OF o(3) fc] f3
  have "Blob demoWorld demoConfig ?missing = NotFound" by blast
  ultimately show ?thesis using u by simp
qed

lemma HasSuffix_append: "HasSuffix (s @ suffix) suffix"
  by (simp add: HasSuffix_def)

lemma TrimSuffix_append: "TrimSuffix (s @ suffix) suffix = s"
  by (simp add: TrimSuffix_def HasSuffix_append)

lemma git_WriteTar_underPrefix:
  "\<forall>e \<in> set (fst (git_WriteTar repo prefix)). underPrefix prefix (tar_Name e)"
  by (auto simp: git_WriteTar_def underPrefix_def)

text \<open>
  C6. An archive request for \<open><ref>.tar.gz\<close> of a repository that opens at that
  reference is answered with the header \<open>Content-Disposition: inline;
  filename="<name>-<ref>.tar.gz"\<close> and \<open>Content-Type: application/gzip\<close>; the body is
  the compressed tar stream that \<open>WriteTar\<close> writes for the prefix \<open><name>-<ref>\<close>,
  so every entry lies under that prefix when \<open>WriteTar\<close> writes every entry under the
  prefix it is given.
\<close>

theorem Archive_header_and_prefix:
  assumes "URLParam r ''file'' = ref @ ''.tar.gz''"
    and "Open ext (repoPath ext c r) ref = Inr gr"
  shows "fst (Archive ext c r) =
           [(''Content-Disposition'',
             ''inline; filename='' @ [CHR 0x22] @ URLParam r ''name'' @ ''-'' @ ref @ ''.tar.gz''
               @ [CHR 0x22]),
            (''Content-Type'', ''application/gzip'')]
       \<and> snd (Archive ext c r) = Gzip (fst (WriteTar ext gr (URLParam r ''name'' @ ''-'' @ ref)))
       \<and> ((\<forall>prefix. \<forall>e \<in> set (fst (WriteTar ext gr prefix)). underPrefix prefix (tar_Name e))
            \<longrightarrow> (\<forall>e \<in> set (entriesOf (snd (Archive ext c r))).
                   underPrefix (URLParam r ''name'' @ ''-'' @ ref) (tar_Name e)))"
  using assms
  by (simp add: Archive_def repoPath_def Let_def HasSuffix_append TrimSuffix_append
        setGZipMIME_def setMIME_def setContentDisposition_def entriesOf_def)

theorem Archive_header_and_prefix_witness:
  "fst (Archive demoWorld demoConfig (demoRequest ''repo'' [(''file'', ''main.tar.gz'')] [] ()))
     = [(''Content-Disposition'', ''inline; filename='' @ [CHR 0x22] @ ''repo-main.tar.gz'' @ [CHR 0x22]),
        (''Content-Type'', ''application/gzip'')]
   \<and> map tar_Name
        (entriesOf (snd (Archive demoWorld demoConfig
           (demoRequest ''repo'' [(''file'', ''main.tar.gz'')] [] ()))))
     = [''repo-main/README.md'', ''repo-main/bin'', ''repo-main/bin/tool'']
   \<and> list_all (\<lambda>e. underPrefix ''repo-main'' (tar_Name e))
        (entriesOf (snd (Archive demoWorld demoConfig
           (demoRequest ''repo'' [(''file'', ''main.tar.gz'')] [] ()))))"
proof -
  let ?r = "demoRequest ''repo'' [(''file'', ''main.tar.gz'')] [] () :: unit Request"
  have f: "URLParam ?r ''file'' = ''main'' @ ''.tar.gz''" by code_simp
  have n: "URLParam ?r ''name'' = ''repo''" by code_simp
  have o: "Open demoWorld (repoPath demoWorld demoConfig ?r) ''main'' = Inr demoRepo"
    by code_simp
  have w: "WriteTar demoWorld = git_WriteTar" by (simp add: demoWorld_def nodeWorld_def)
  have names: "map tar_Name (entriesOf (snd (Archive demoWorld demoConfig ?r)))
     = [''repo-main/README.md'', ''repo-main/bin'', ''repo-main/bin/tool'']"
    by code_simp
  from Archive_header_and_prefix [OF f o] git_WriteTar_underPrefix n w names
  show ?thesis by (simp add: list_all_iff)
qed

section \<open>Confinement of repository paths\<close>

lemma splitSlash_nonempty: "splitSlash s \<noteq> []"
  by (induction s) (auto split: list.splits)

lemma splitSlash_append: "splitSlash (a @ CHR ''/'' # b) = splitSlash a @ splitSlash b"
proof (induction a)
  case Nil
  then show ?case by simp
next
  case (Cons c a)
  obtain x xs where x: "splitSlash a = x # xs"
    using splitSlash_nonempty [of a] by (cases "splitSlash a") auto
  with Cons show ?case by simp
qed

lemma splitSlash_no_slash: "CHR ''/'' \<notin> set s \<Longrightarrow> splitSlash s = [s]"
  by (induction s) auto

lemma in_splitSlash_no_slash: "e \<in> set (splitSlash s) \<Longrightarrow> CHR ''/'' \<notin> set e"
proof (induction s arbitrary: e)
  case Nil
  then show ?case by simp
next
  case (Cons c s)
  obtain x xs where x: "splitSlash s = x # xs"
    using splitSlash_nonempty [of s] by (cases "splitSlash s") auto
  with Cons show ?case by (auto split: if_splits)
qed

lemma joinSlash_Cons: "xs \<noteq> [] \<Longrightarrow> joinSlash (x # xs) = x @ CHR ''/'' # joinSlash xs"
  by (cases xs) simp_all

lemma joinSlash_append:
  "xs \<noteq> [] \<Longrightarrow> ys \<noteq> [] \<Longrightarrow> joinSlash (xs @ ys) = joinSlash xs @ CHR ''/'' # joinSlash ys"
proof (induction xs)
  case Nil
  then show ?case by simp
next
  case (Cons x xs)
  show ?case
  proof (cases "xs = []")
    case True
    with Cons.prems show ?thesis by (simp add: joinSlash_Cons)
  next
    case False
    with Cons show ?thesis by (simp add: joinSlash_Cons)
  qed
qed

lemma joinSlash_splitSlash: "joinSlash (splitSlash s) = s"
proof (induction s)
  case Nil
  then show ?case by simp
next
  case (Cons c s)
  obtain x xs where x: "splitSlash s = x # xs"
    using splitSlash_nonempty [of s] by (cases "splitSlash s") auto
  show ?case
  proof (cases "c = CHR ''/''")
    case True
    with Cons show ?thesis by (simp add: joinSlash_Cons splitSlash_nonempty)
  next
    case False
    with Cons x show ?thesis by (cases xs) auto
  qed
qed

lemma splitSlash_joinSlash:
  "cs \<noteq> [] \<Longrightarrow> \<forall>c \<in> set cs. CHR ''/'' \<notin> set c \<Longrightarrow> splitSlash (joinSlash cs) = cs"
proof (induction cs)
  case Nil
  then show ?case by simp
next
  case (Cons c cs)
  show ?case
  proof (cases "cs = []")
    case True
    with Cons.prems show ?thesis by (simp add: splitSlash_no_slash)
  next
    case False
    with Cons show ?thesis
      by (simp add: joinSlash_Cons splitSlash_append splitSlash_no_slash)
  qed
qed

lemma cleanElems_append:
  "cleanElems rooted out (xs @ ys) = cleanElems rooted (rev (cleanElems rooted out xs)) ys"
  by (induction xs arbitrary: out) (auto split: list.splits)

lemma cleanElems_proper:
  "list_all properName es \<Longrightarrow> cleanElems rooted out es = rev out @ es"
  by (induction es arbitrary: out) (auto simp: properName_def)

lemma cleanElems_rooted_proper:
  "list_all properName out \<Longrightarrow> list_all properName (cleanElems True out es)"
proof (induction es arbitrary: out)
  case Nil
  then show ?case by (simp add: list_all_iff)
next
  case (Cons e es)
  then show ?case by (cases out) (auto simp: properName_def)
qed

lemma Clean_rooted:
  "Clean (CHR ''/'' # p) = CHR ''/'' # joinSlash (cleanElems True [] (splitSlash p))"
  by (simp add: Clean_def)

lemma cleanElems_subset: "set (cleanElems rooted out es) \<subseteq> set out \<union> set es"
proof (induction es arbitrary: out)
  case Nil
  then show ?case by simp
next
  case (Cons e es)
  show ?case
  proof (cases out)
    case Nil
    with Cons [of "[]"] Cons [of "[e]"] show ?thesis by auto
  next
    case (Cons t ts)
    with Cons.IH [of out] Cons.IH [of "e # out"] Cons.IH [of ts] show ?thesis by auto
  qed
qed

lemma plainSecureJoin_eq:
  assumes "cleanAbs root"
  shows "\<exists>cs. list_all properName cs
           \<and> fst (plainSecureJoin root unsafePath)
               = (if cs = [] then root else root @ CHR ''/'' # joinSlash cs)
           \<and> (cs \<noteq> [] \<longrightarrow> splitSlash (joinSlash cs) = cs)"
proof -
  define cs where "cs = cleanElems True [] (splitSlash (CHR ''/'' # unsafePath))"
  define rcs where "rcs = splitSlash (tl root)"
  have cs: "list_all properName cs"
    unfolding cs_def by (rule cleanElems_rooted_proper) simp
  have rcs: "list_all properName rcs"
    using assms by (simp add: cleanAbs_def rcs_def)
  have "root = CHR ''/'' # tl root"
    using assms by (cases root) (auto simp: cleanAbs_def)
  then have root: "root = CHR ''/'' # joinSlash rcs"
    by (simp add: rcs_def joinSlash_splitSlash)
  have rcs_split: "splitSlash (joinSlash rcs) = rcs"
    by (simp add: rcs_def joinSlash_splitSlash)
  have rcs_ne: "rcs \<noteq> []" by (simp add: rcs_def splitSlash_nonempty)
  have "splitSlash root = [] # rcs"
    using \<open>root = CHR ''/'' # tl root\<close> rcs_def by (metis splitSlash.simps(2))
  with rcs have nodots: "''..'' \<notin> set (splitSlash root)"
    by (auto simp: list_all_iff properName_def)
  have inner: "Join [''/'', unsafePath] = CHR ''/'' # joinSlash cs"
    by (simp add: Clean_rooted cs_def)
  have pj: "fst (plainSecureJoin root unsafePath) = Join [root, CHR ''/'' # joinSlash cs]"
    using nodots by (simp add: plainSecureJoin_def inner del: Join.simps)
  have noslash: "\<forall>c \<in> set cs. CHR ''/'' \<notin> set c"
    using cleanElems_subset [of True "[]" "splitSlash (CHR ''/'' # unsafePath)"]
      in_splitSlash_no_slash [of _ "CHR ''/'' # unsafePath"]
    unfolding cs_def by auto
  have split_cs: "cs \<noteq> [] \<Longrightarrow> splitSlash (joinSlash cs) = cs"
    using noslash by (simp add: splitSlash_joinSlash)
  have "Join [root, CHR ''/'' # joinSlash cs]
          = Clean (CHR ''/'' # (joinSlash rcs @ CHR ''/'' # CHR ''/'' # joinSlash cs))"
    using root by simp
  also have "\<dots> = CHR ''/'' # joinSlash (cleanElems True []
                      (splitSlash (joinSlash rcs @ CHR ''/'' # CHR ''/'' # joinSlash cs)))"
    by (rule Clean_rooted)
  also have "splitSlash (joinSlash rcs @ CHR ''/'' # CHR ''/'' # joinSlash cs)
               = rcs @ [] # splitSlash (joinSlash cs)"
    by (simp add: splitSlash_append rcs_split)
  also have "cleanElems True [] (rcs @ [] # splitSlash (joinSlash cs))
               = cleanElems True (rev rcs) (splitSlash (joinSlash cs))"
    by (simp add: cleanElems_append cleanElems_proper [OF rcs])
  finally have result: "Join [root, CHR ''/'' # joinSlash cs]
      = CHR ''/'' # joinSlash (cleanElems True (rev rcs) (splitSlash (joinSlash cs)))" .
  have "fst (plainSecureJoin root unsafePath)
          = (if cs = [] then root else root @ CHR ''/'' # joinSlash cs)"
  proof (cases "cs = []")
    case True
    then have "cleanElems True (rev rcs) (splitSlash (joinSlash cs)) = rcs" by simp
    with result root True show ?thesis
      unfolding pj by (simp del: Join.simps)
  next
    case False
    then have "cleanElems True (rev rcs) (splitSlash (joinSlash cs)) = rcs @ cs"
      by (simp add: split_cs cleanElems_proper [OF cs])
    with result root False rcs_ne show ?thesis
      unfolding pj by (simp add: joinSlash_append del: Join.simps)
  qed
  with cs split_cs show ?thesis by blast
qed

lemma plainSecureJoin_under:
  assumes "cleanAbs root"
  shows "under root (fst (plainSecureJoin root unsafePath))"
proof -
  from plainSecureJoin_eq [OF assms, of unsafePath]
  obtain cs where cs: "list_all properName cs"
    and eq: "fst (plainSecureJoin root unsafePath)
               = (if cs = [] then root else root @ CHR ''/'' # joinSlash cs)"
    and split: "cs \<noteq> [] \<longrightarrow> splitSlash (joinSlash cs) = cs"
    by blast
  show ?thesis
  proof (cases "cs = []")
    case True
    with eq show ?thesis by (simp add: under_def)
  next
    case False
    with eq cs split show ?thesis by (simp add: under_def)
  qed
qed


lemma repoPath_Open_update [simp]: "repoPath (ext \<lparr> Open := open' \<rparr>) c r = repoPath ext c r"
  by (simp add: repoPath_def didPath_def)

lemma getDescription_Open_update [simp]:
  "getDescription (ext \<lparr> Open := open' \<rparr>) path = getDescription ext path"
  by (simp add: getDescription_def)

lemma findReadme_Open_update [simp]:
  "findReadme (ext \<lparr> Open := open' \<rparr>) gr acc names = findReadme ext gr acc names"
  by (induction names arbitrary: acc) (simp_all add: Let_def)

lemma readers_open_repoPath:
  assumes "open' (repoPath ext c r) = Open ext (repoPath ext c r)"
  shows "RepoIndex (ext \<lparr> Open := open' \<rparr>) c r = RepoIndex ext c r"
    and "RepoTree (ext \<lparr> Open := open' \<rparr>) c r = RepoTree ext c r"
    and "Blob (ext \<lparr> Open := open' \<rparr>) c r = Blob ext c r"
    and "Archive (ext \<lparr> Open := open' \<rparr>) c r = Archive ext c r"
    and "Log (ext \<lparr> Open := open' \<rparr>) c r = Log ext c r"
    and "Diff_handler (ext \<lparr> Open := open' \<rparr>) c r = Diff_handler ext c r"
    and "Tags_handler (ext \<lparr> Open := open' \<rparr>) c r = Tags_handler ext c r"
    and "Branches_handler (ext \<lparr> Open := open' \<rparr>) c r = Branches_handler ext c r"
  using assms
  unfolding RepoIndex_def RepoTree_def Blob_def Archive_def Log_def Diff_handler_def
    Tags_handler_def Branches_handler_def repoPath_def didPath_def
  by (simp_all add: Let_def cong: sum.case_cong option.case_cong prod.case_cong if_cong)

lemma mergers_open_repoPath:
  "open' (repoPath ext c rm) = Open ext (repoPath ext c rm) \<Longrightarrow>
     Merge (ext \<lparr> Open := open' \<rparr>) c rm = Merge ext c rm"
  "open' (repoPath ext c rc) = Open ext (repoPath ext c rc) \<Longrightarrow>
     MergeCheck (ext \<lparr> Open := open' \<rparr>) c rc = MergeCheck ext c rc"
  unfolding Merge_def MergeCheck_def repoPath_def didPath_def
  by (simp_all add: Let_def cong: sum.case_cong option.case_cong prod.case_cong if_cong)


lemma NewRepo_first_call:
  assumes "Body r = Inr data"
  shows "take 1 (snd (NewRepo ext c r)) = [InitBareCall (newRepoPath ext c data) (branchOf c data)]"
  unfolding NewRepo_unfold [OF assms]
  by (simp del: Join.simps split: option.splits)

lemma RemoveRepo_calls:
  assumes "Body r = Inr data"
  shows "set (snd (RemoveRepo ext c r))
           \<subseteq> {RemoveAllCall (fst (SecureJoin ext (ScanPath c)
                                  (Join [remove_Did data, remove_Name data])))}"
  unfolding RemoveRepo_def Let_def assms
  by (simp del: Join.simps split: option.splits)

lemma SecureJoin_under:
  assumes "\<forall>unsafePath p. SecureJoin ext root unsafePath = (p, None) \<longrightarrow> under root p"
    and "snd (SecureJoin ext root unsafePath) = None"
  shows "under root (fst (SecureJoin ext root unsafePath))"
  using assms by (metis prod.collapse)

text \<open>
  Every handler that opens a repository opens it at the path that \<open>SecureJoin\<close> returns
  for the scan root and \<open>didPath\<close> of the request, and at no other: its answer is the
  same in every world whose \<open>git.Open\<close> agrees at that path. \<open>NewRepo\<close> and
  \<open>RemoveRepo\<close> initialise and remove at the path that \<open>SecureJoin\<close> returns for the
  scan root and the joined \<open>did\<close> and \<open>name\<close>. A call of \<open>SecureJoin\<close> that reports no
  error hands these handlers a path under the scan root when \<open>SecureJoin\<close> confines
  what it returns, as it does without symbolic links (\<open>plainSecureJoin_under\<close>).
\<close>

lemma repository_paths_under_scan_root:
  assumes "\<forall>unsafePath p. SecureJoin ext (ScanPath c) unsafePath = (p, None)
             \<longrightarrow> under (ScanPath c) p"
  shows "(snd (SecureJoin ext (ScanPath c) (didPath ext r)) = None
            \<longrightarrow> under (ScanPath c) (repoPath ext c r))
       \<and> (\<forall>open'. open' (repoPath ext c r) = Open ext (repoPath ext c r) \<longrightarrow>
              RepoIndex (ext \<lparr> Open := open' \<rparr>) c r = RepoIndex ext c r
            \<and> RepoTree (ext \<lparr> Open := open' \<rparr>) c r = RepoTree ext c r
            \<and> Blob (ext \<lparr> Open := open' \<rparr>) c r = Blob ext c r
            \<and> Archive (ext \<lparr> Open := open' \<rparr>) c r = Archive ext c r
            \<and> Log (ext \<lparr> Open := open' \<rparr>) c r = Log ext c r
            \<and> Diff_handler (ext \<lparr> Open := open' \<rparr>) c r = Diff_handler ext c r
            \<and> Tags_handler (ext \<lparr> Open := open' \<rparr>) c r = Tags_handler ext c r
            \<and> Branches_handler (ext \<lparr> Open := open' \<rparr>) c r = Branches_handler ext c r)
       \<and> (snd (SecureJoin ext (ScanPath c) (didPath ext rm)) = None
            \<longrightarrow> under (ScanPath c) (repoPath ext c rm))
       \<and> (\<forall>open'. open' (repoPath ext c rm) = Open ext (repoPath ext c rm) \<longrightarrow>
              Merge (ext \<lparr> Open := open' \<rparr>) c rm = Merge ext c rm)
       \<and> (snd (SecureJoin ext (ScanPath c) (didPath ext rc)) = None
            \<longrightarrow> under (ScanPath c) (repoPath ext c rc))
       \<and> (\<forall>open'. open' (repoPath ext c rc) = Open ext (repoPath ext c rc) \<longrightarrow>
              MergeCheck (ext \<lparr> Open := open' \<rparr>) c rc = MergeCheck ext c rc)
       \<and> (\<forall>data. Body rn = Inr data
              \<and> snd (SecureJoin ext (ScanPath c) (Join [Did data, Name data])) = None \<longrightarrow>
              under (ScanPath c) (newRepoPath ext c data)
              \<and> take 1 (snd (NewRepo ext c rn))
                  = [InitBareCall (newRepoPath ext c data) (branchOf c data)])
       \<and> (\<forall>data. Body rr = Inr data
              \<and> snd (SecureJoin ext (ScanPath c) (Join [remove_Did data, remove_Name data])) = None
              \<longrightarrow> (\<forall>call \<in> set (snd (RemoveRepo ext c rr)).
                     \<exists>p. call = RemoveAllCall p \<and> under (ScanPath c) p))"
proof -
  note sj = SecureJoin_under [OF assms]
  have 1: "snd (SecureJoin ext (ScanPath c) (didPath ext q)) = None
             \<Longrightarrow> under (ScanPath c) (repoPath ext c q)" for q :: "'q Request"
    unfolding repoPath_def by (rule sj)
  have 2: "under (ScanPath c) (newRepoPath ext c data)"
    if "snd (SecureJoin ext (ScanPath c) (Join [Did data, Name data])) = None" for data
    unfolding newRepoPath_def using that by (rule sj)
  have 3: "\<forall>call \<in> set (snd (RemoveRepo ext c rr)). \<exists>p. call = RemoveAllCall p \<and> under (ScanPath c) p"
    if "Body rr = Inr data"
      and "snd (SecureJoin ext (ScanPath c) (Join [remove_Did data, remove_Name data])) = None"
    for data
    using RemoveRepo_calls [OF that(1), of ext c] sj [OF that(2)] by blast
  have 4: "\<forall>open'. open' (repoPath ext c r) = Open ext (repoPath ext c r) \<longrightarrow>
              RepoIndex (ext \<lparr> Open := open' \<rparr>) c r = RepoIndex ext c r
            \<and> RepoTree (ext \<lparr> Open := open' \<rparr>) c r = RepoTree ext c r
            \<and> Blob (ext \<lparr> Open := open' \<rparr>) c r = Blob ext c r
            \<and> Archive (ext \<lparr> Open := open' \<rparr>) c r = Archive ext c r
            \<and> Log (ext \<lparr> Open := open' \<rparr>) c r = Log ext c r
            \<and> Diff_handler (ext \<lparr> Open := open' \<rparr>) c r = Diff_handler ext c r
            \<and> Tags_handler (ext \<lparr> Open := open' \<rparr>) c r = Tags_handler ext c r
            \<and> Branches_handler (ext \<lparr> Open := open' \<rparr>) c r = Branches_handler ext c r"
  proof (intro allI impI)
    fix open'
    assume a: "open' (repoPath ext c r) = Open ext (repoPath ext c r)"
    show "RepoIndex (ext \<lparr> Open := open' \<rparr>) c r = RepoIndex ext c r
            \<and> RepoTree (ext \<lparr> Open := open' \<rparr>) c r = RepoTree ext c r
            \<and> Blob (ext \<lparr> Open := open' \<rparr>) c r = Blob ext c r
            \<and> Archive (ext \<lparr> Open := open' \<rparr>) c r = Archive ext c r
            \<and> Log (ext \<lparr> Open := open' \<rparr>) c r = Log ext c r
            \<and> Diff_handler (ext \<lparr> Open := open' \<rparr>) c r = Diff_handler ext c r
            \<and> Tags_handler (ext \<lparr> Open := open' \<rparr>) c r = Tags_handler ext c r
            \<and> Branches_handler (ext \<lparr> Open := open' \<rparr>) c r = Branches_handler ext c r"
      using a by (simp add: readers_open_repoPath)
  qed
  have 5: "\<forall>open'. open' (repoPath ext c rm) = Open ext (repoPath ext c rm) \<longrightarrow>
              Merge (ext \<lparr> Open := open' \<rparr>) c rm = Merge ext c rm"
    by (simp add: mergers_open_repoPath)
  have 6: "\<forall>open'. open' (repoPath ext c rc) = Open ext (repoPath ext c rc) \<longrightarrow>
              MergeCheck (ext \<lparr> Open := open' \<rparr>) c rc = MergeCheck ext c rc"
    by (simp add: mergers_open_repoPath)
  have 7: "\<forall>data. Body rn = Inr data
              \<and> snd (SecureJoin ext (ScanPath c) (Join [Did data, Name data])) = None \<longrightarrow>
              under (ScanPath c) (newRepoPath ext c data)
              \<and> take 1 (snd (NewRepo ext c rn))
                  = [InitBareCall (newRepoPath ext c data) (branchOf c data)]"
    using 2 NewRepo_first_call [of rn _ ext c] by blast
  have 8: "\<forall>data. Body rr = Inr data
              \<and> snd (SecureJoin ext (ScanPath c) (Join [remove_Did data, remove_Name data])) = None
              \<longrightarrow> (\<forall>call \<in> set (snd (RemoveRepo ext c rr)).
                     \<exists>p. call = RemoveAllCall p \<and> under (ScanPath c) p)"
    using 3 by blast
  have 9: "snd (SecureJoin ext (ScanPath c) (didPath ext q)) = None
             \<longrightarrow> under (ScanPath c) (repoPath ext c q)" for q :: "'q Request"
    using 1 [of q] by blast
  show ?thesis
    by (intro conjI 4 5 6 7 8 9)
qed

lemma cleanAbs_demo: "cleanAbs ''/srv/git''"
  by code_simp

lemma traversal_request_under_scan_root:
  "repoPath demoWorld demoConfig traversalRequest = ''/srv/git/did:plc:a/etc/passwd''
   \<and> under (ScanPath demoConfig) (repoPath demoWorld demoConfig traversalRequest)
   \<and> snd (SecureJoin demoWorld (ScanPath demoConfig) (didPath demoWorld traversalRequest)) = None"
proof -
  have sp: "ScanPath demoConfig = ''/srv/git''"
    by (simp add: demoConfig_def)
  have sj: "SecureJoin demoWorld = plainSecureJoin"
    by (simp add: demoWorld_def nodeWorld_def)
  have contract: "\<forall>unsafePath p. SecureJoin demoWorld (ScanPath demoConfig) unsafePath = (p, None)
                    \<longrightarrow> under (ScanPath demoConfig) p"
    using plainSecureJoin_under [OF cleanAbs_demo] unfolding sp sj by (metis fst_conv)
  have ok: "snd (SecureJoin demoWorld (ScanPath demoConfig) (didPath demoWorld traversalRequest)) = None"
    by code_simp
  have path: "repoPath demoWorld demoConfig traversalRequest = ''/srv/git/did:plc:a/etc/passwd''"
    by code_simp
  from repository_paths_under_scan_root [OF contract, of traversalRequest] ok path
  show ?thesis by blast
qed

text \<open>
  C2. The path at which a repository is opened does not always lie under the scan root.
  Every handler drops the error of \<open>SecureJoin\<close>
  (\<open>path, _ := securejoin.SecureJoin(h.c.Repo.ScanPath, didPath(r))\<close>) and goes on with
  the path returned with it. On a node where the call fails for the requested repository
  (a symbolic link that loops, say), that path is the empty one: it is not under the scan
  root, and the blob is read from the repository found at the empty path, the working
  directory of the server.
\<close>

theorem Blob_opens_empty_path_on_SecureJoin_error:
  "snd (SecureJoin loopWorld (ScanPath demoConfig)
          (didPath loopWorld (demoRequest ''loop'' [(''*'', ''README.md'')] [] ())))
     = Some (Err ErrOther ''too many levels of symbolic links'')
   \<and> repoPath loopWorld demoConfig (demoRequest ''loop'' [(''*'', ''README.md'')] [] ()) = []
   \<and> \<not> under (ScanPath demoConfig)
          (repoPath loopWorld demoConfig (demoRequest ''loop'' [(''*'', ''README.md'')] [] ()))
   \<and> Blob loopWorld demoConfig (demoRequest ''loop'' [(''*'', ''README.md'')] [] ())
       = ShowFile \<lparr> blob_Ref = [], Contents = ''hello'', blob_Path = ''README.md'',
           IsBinary = False, SizeHint = 5 \<rparr>"
  by code_simp

end
